theory Spec2Isabelle
  imports Complex_Main "HOL-Library.Sublist"
begin

section \<open>Vocabulary: severities, symptoms, diseases and their phases\<close>

text \<open>
  The enumerations of \<^verbatim>\<open>_refactored_symptom_helpers.py\<close>. A Python enumeration is
  a datatype, the list of its members in declaration order (what iterating over the class
  yields) and the name of each member (what \<^verbatim>\<open>.name\<close> returns).
\<close>

datatype Severity = UNDEFINED | MILD | MODERATE | HEAVY | SEVERE | EXTREMELY_SEVERE

definition Severity_members :: "Severity list" where
  "Severity_members = [UNDEFINED, MILD, MODERATE, HEAVY, SEVERE, EXTREMELY_SEVERE]"

fun Severity_name :: "Severity \<Rightarrow> string" where
  "Severity_name UNDEFINED = ''UNDEFINED''"
| "Severity_name MILD = ''MILD''"
| "Severity_name MODERATE = ''MODERATE''"
| "Severity_name HEAVY = ''HEAVY''"
| "Severity_name SEVERE = ''SEVERE''"
| "Severity_name EXTREMELY_SEVERE = ''EXTREMELY_SEVERE''"

datatype BaseSymptom =
    NO_SYMPTOMS | FEVER | CHILLS | GASTRO | DIARRHEA | NAUSEA_VOMITTING | FATIGUE | UNUSUAL
  | HARD_TIME_WAKING_UP | HEADACHE | CONFUSED | LOST_CONSCIOUSNESS | TROUBLE_BREATHING
  | SNEEZING | COUGH | RUNNY_NOSE | SORE_THROAT | CHEST_PAIN | LOSS_OF_TASTE | ACHES

definition BaseSymptom_members :: "BaseSymptom list" where
  "BaseSymptom_members =
     [NO_SYMPTOMS, FEVER, CHILLS, GASTRO, DIARRHEA, NAUSEA_VOMITTING, FATIGUE, UNUSUAL,
      HARD_TIME_WAKING_UP, HEADACHE, CONFUSED, LOST_CONSCIOUSNESS, TROUBLE_BREATHING,
      SNEEZING, COUGH, RUNNY_NOSE, SORE_THROAT, CHEST_PAIN, LOSS_OF_TASTE, ACHES]"

fun BaseSymptom_name :: "BaseSymptom \<Rightarrow> string" where
  "BaseSymptom_name NO_SYMPTOMS = ''NO_SYMPTOMS''"
| "BaseSymptom_name FEVER = ''FEVER''"
| "BaseSymptom_name CHILLS = ''CHILLS''"
| "BaseSymptom_name GASTRO = ''GASTRO''"
| "BaseSymptom_name DIARRHEA = ''DIARRHEA''"
| "BaseSymptom_name NAUSEA_VOMITTING = ''NAUSEA_VOMITTING''"
| "BaseSymptom_name FATIGUE = ''FATIGUE''"
| "BaseSymptom_name UNUSUAL = ''UNUSUAL''"
| "BaseSymptom_name HARD_TIME_WAKING_UP = ''HARD_TIME_WAKING_UP''"
| "BaseSymptom_name HEADACHE = ''HEADACHE''"
| "BaseSymptom_name CONFUSED = ''CONFUSED''"
| "BaseSymptom_name LOST_CONSCIOUSNESS = ''LOST_CONSCIOUSNESS''"
| "BaseSymptom_name TROUBLE_BREATHING = ''TROUBLE_BREATHING''"
| "BaseSymptom_name SNEEZING = ''SNEEZING''"
| "BaseSymptom_name COUGH = ''COUGH''"
| "BaseSymptom_name RUNNY_NOSE = ''RUNNY_NOSE''"
| "BaseSymptom_name SORE_THROAT = ''SORE_THROAT''"
| "BaseSymptom_name CHEST_PAIN = ''CHEST_PAIN''"
| "BaseSymptom_name LOSS_OF_TASTE = ''LOSS_OF_TASTE''"
| "BaseSymptom_name ACHES = ''ACHES''"

text \<open>
  The four subclasses of \<^verbatim>\<open>DiseaseContext\<close> are one datatype of phases; every
  member carries the name of its class, since \<^verbatim>\<open>ALLERGY\<close>, \<^verbatim>\<open>COLD\<close> and
  \<^verbatim>\<open>FLU\<close> name a disease as well as a phase.
\<close>

datatype DiseaseContext =
    CovidContext_INCUBATION | CovidContext_ONSET | CovidContext_PLATEAU
  | CovidContext_POST_PLATEAU_1 | CovidContext_POST_PLATEAU_2
  | AllergyContext_ALLERGY
  | ColdContext_COLD | ColdContext_COLD_LAST_DAY
  | FluContext_FLU_FIRST_DAY | FluContext_FLU | FluContext_FLU_LAST_DAY

fun DiseaseContext_name :: "DiseaseContext \<Rightarrow> string" where
  "DiseaseContext_name CovidContext_INCUBATION = ''INCUBATION''"
| "DiseaseContext_name CovidContext_ONSET = ''ONSET''"
| "DiseaseContext_name CovidContext_PLATEAU = ''PLATEAU''"
| "DiseaseContext_name CovidContext_POST_PLATEAU_1 = ''POST_PLATEAU_1''"
| "DiseaseContext_name CovidContext_POST_PLATEAU_2 = ''POST_PLATEAU_2''"
| "DiseaseContext_name AllergyContext_ALLERGY = ''ALLERGY''"
| "DiseaseContext_name ColdContext_COLD = ''COLD''"
| "DiseaseContext_name ColdContext_COLD_LAST_DAY = ''COLD_LAST_DAY''"
| "DiseaseContext_name FluContext_FLU_FIRST_DAY = ''FLU_FIRST_DAY''"
| "DiseaseContext_name FluContext_FLU = ''FLU''"
| "DiseaseContext_name FluContext_FLU_LAST_DAY = ''FLU_LAST_DAY''"

datatype Disease = COVID | ALLERGY | COLD | FLU

definition Disease_members :: "Disease list" where
  "Disease_members = [COVID, ALLERGY, COLD, FLU]"

fun Disease_name :: "Disease \<Rightarrow> string" where
  "Disease_name COVID = ''COVID''"
| "Disease_name ALLERGY = ''ALLERGY''"
| "Disease_name COLD = ''COLD''"
| "Disease_name FLU = ''FLU''"

text \<open>
  \<^verbatim>\<open>Disease.X.value\<close> is the phase enumeration the disease owns; the model gives
  the members of that class in declaration order.
\<close>

fun Disease_value :: "Disease \<Rightarrow> DiseaseContext list" where
  "Disease_value COVID =
     [CovidContext_INCUBATION, CovidContext_ONSET, CovidContext_PLATEAU,
      CovidContext_POST_PLATEAU_1, CovidContext_POST_PLATEAU_2]"
| "Disease_value ALLERGY = [AllergyContext_ALLERGY]"
| "Disease_value COLD = [ColdContext_COLD, ColdContext_COLD_LAST_DAY]"
| "Disease_value FLU = [FluContext_FLU_FIRST_DAY, FluContext_FLU, FluContext_FLU_LAST_DAY]"

section \<open>Exceptions\<close>

text \<open>
  Every \<^verbatim>\<open>raise\<close>, failing \<^verbatim>\<open>assert\<close> and failing built-in operation of the
  source is one constructor; \<open>exc_class\<close> gives the Python exception class it raises.
\<close>

datatype exc = ValueError | AssertionError | TypeError

datatype error =
    InvalidSeverity            \<comment> \<open>ValueError, \<^verbatim>\<open>Symptoms.make\<close>\<close>
  | InvalidBaseSymptom         \<comment> \<open>ValueError, \<^verbatim>\<open>Symptoms.make\<close>\<close>
  | InvalidDisease             \<comment> \<open>ValueError, \<^verbatim>\<open>DiseasePhase.make\<close>\<close>
  | InvalidContext             \<comment> \<open>ValueError, \<^verbatim>\<open>DiseasePhase.make\<close>\<close>
  | ContextNotValidForDisease  \<comment> \<open>the assertion of \<^verbatim>\<open>DiseasePhase.__init__\<close>\<close>
  | UnpackError                \<comment> \<open>ValueError of a tuple unpacking with the wrong count\<close>
  | TooManyComponents          \<comment> \<open>the bare \<^verbatim>\<open>raise ValueError\<close> of \<^verbatim>\<open>HealthState.parse\<close>\<close>
  | MissingFromSymptoms        \<comment> \<open>assertion, \<^verbatim>\<open>add_transition_rule\<close>\<close>
  | MissingFromPhase           \<comment> \<open>assertion, \<^verbatim>\<open>add_transition_rule\<close>\<close>
  | MissingToSymptoms          \<comment> \<open>assertion, \<^verbatim>\<open>add_transition_rule\<close>\<close>
  | MissingToPhase             \<comment> \<open>assertion, \<^verbatim>\<open>add_transition_rule\<close>\<close>
  | NoneNotIterable            \<comment> \<open>TypeError of iterating over \<^verbatim>\<open>None\<close>\<close>
  | BadType                    \<comment> \<open>the \<^verbatim>\<open>raise TypeError\<close> of the validators\<close>
  | BadElement                 \<comment> \<open>the closing \<^verbatim>\<open>assert all(...)\<close> of the validators\<close>
  | NotNone                    \<comment> \<open>the \<^verbatim>\<open>assert disease_phase is None\<close> of the phase validator\<close>
  | NoForwardRule              \<comment> \<open>ValueError, \<^verbatim>\<open>sample_next_health_state\<close>\<close>
  | ChoiceRaised exc           \<comment> \<open>an exception leaving \<^verbatim>\<open>rng.choice\<close>\<close>

fun exc_class :: "error \<Rightarrow> exc" where
  "exc_class InvalidSeverity = ValueError"
| "exc_class InvalidBaseSymptom = ValueError"
| "exc_class InvalidDisease = ValueError"
| "exc_class InvalidContext = ValueError"
| "exc_class ContextNotValidForDisease = AssertionError"
| "exc_class UnpackError = ValueError"
| "exc_class TooManyComponents = ValueError"
| "exc_class MissingFromSymptoms = AssertionError"
| "exc_class MissingFromPhase = AssertionError"
| "exc_class MissingToSymptoms = AssertionError"
| "exc_class MissingToPhase = AssertionError"
| "exc_class NoneNotIterable = TypeError"
| "exc_class BadType = TypeError"
| "exc_class BadElement = AssertionError"
| "exc_class NotNone = AssertionError"
| "exc_class NoForwardRule = ValueError"
| "exc_class (ChoiceRaised e) = e"

text \<open>A list comprehension whose body may raise: the first exception ends it.\<close>

fun traverse :: "('a \<Rightarrow> error + 'b) \<Rightarrow> 'a list \<Rightarrow> error + 'b list" where
  "traverse f [] = Inr []"
| "traverse f (x # xs) =
     (case f x of
        Inl e \<Rightarrow> Inl e
      | Inr y \<Rightarrow> (case traverse f xs of Inl e \<Rightarrow> Inl e | Inr ys \<Rightarrow> Inr (y # ys)))"

section \<open>Strings\<close>

text \<open>
  \<^verbatim>\<open>str.upper\<close> on the ASCII letters, \<^verbatim>\<open>str.split(sep)\<close> for a separator that
  is not empty (every separator of the source is a literal) and \<^verbatim>\<open>sep.join\<close>.
  \<^verbatim>\<open>split\<close> cuts at the leftmost occurrences of the separator, which do not overlap.
  The strings of the model are ASCII strings: \<^verbatim>\<open>str.upper\<close> also maps letters
  outside ASCII, some of them to ASCII letters, and names with such letters are not
  modelled.
\<close>

definition upper_char :: "char \<Rightarrow> char" where
  "upper_char c =
     (case map_of (zip ''abcdefghijklmnopqrstuvwxyz'' ''ABCDEFGHIJKLMNOPQRSTUVWXYZ'') c of
        None \<Rightarrow> c
      | Some u \<Rightarrow> u)"

definition py_upper :: "string \<Rightarrow> string" where
  "py_upper s = map upper_char s"

fun py_split :: "string \<Rightarrow> string \<Rightarrow> string list" where
  "py_split sep [] = [[]]"
| "py_split [] (c # cs) = [c # cs]"
| "py_split (d # ds) (c # cs) =
     (if prefix (d # ds) (c # cs) then [] # py_split (d # ds) (drop (length ds) cs)
      else (case py_split (d # ds) cs of
              [] \<Rightarrow> [[c]]
            | p # ps \<Rightarrow> (c # p) # ps))"

fun py_join :: "string \<Rightarrow> string list \<Rightarrow> string" where
  "py_join sep [] = []"
| "py_join sep [p] = p"
| "py_join sep (p # q # ps) = p @ sep @ py_join sep (q # ps)"

section \<open>Symptoms and disease phases\<close>

record Symptoms =
  severity :: Severity
  base_symptom :: BaseSymptom

definition get_all_possible_symptoms :: "Symptoms list" where
  "get_all_possible_symptoms =
     map (\<lambda>(s, b). \<lparr>severity = s, base_symptom = b\<rparr>)
         (List.product Severity_members BaseSymptom_members)"

definition Symptoms_str :: "Symptoms \<Rightarrow> string" where
  "Symptoms_str s = Severity_name (severity s) @ '' '' @ BaseSymptom_name (base_symptom s)"

text \<open>
  \<^verbatim>\<open>getattr(Enum, name, None)\<close> with an upper-cased name finds the member of that
  name: the other attributes of an enumeration class all have a lower-case letter.
\<close>

definition Severity_getattr :: "string \<Rightarrow> Severity option" where
  "Severity_getattr n = find (\<lambda>m. Severity_name m = n) Severity_members"

definition BaseSymptom_getattr :: "string \<Rightarrow> BaseSymptom option" where
  "BaseSymptom_getattr n = find (\<lambda>m. BaseSymptom_name m = n) BaseSymptom_members"

definition Disease_getattr :: "string \<Rightarrow> Disease option" where
  "Disease_getattr n = find (\<lambda>m. Disease_name m = n) Disease_members"

definition DiseaseContext_getattr :: "Disease \<Rightarrow> string \<Rightarrow> DiseaseContext option" where
  "DiseaseContext_getattr d n = find (\<lambda>m. DiseaseContext_name m = n) (Disease_value d)"

definition Symptoms_make :: "string \<Rightarrow> string \<Rightarrow> error + Symptoms" where
  "Symptoms_make sev_str sym_str =
     (case Severity_getattr (py_upper sev_str) of
        None \<Rightarrow> Inl InvalidSeverity
      | Some severity_ \<Rightarrow>
          (case BaseSymptom_getattr (py_upper sym_str) of
             None \<Rightarrow> Inl InvalidBaseSymptom
           | Some base_symptom_ \<Rightarrow> Inr \<lparr>severity = severity_, base_symptom = base_symptom_\<rparr>))"

record DiseasePhase =
  disease :: Disease
  "context" :: DiseaseContext

text \<open>
  \<^verbatim>\<open>self.context in self.disease.value\<close>: the phase is a member of the enumeration
  class the disease owns (membership of an enumeration member in an enumeration class, as
  Python 3.8 to 3.11 decide it: by class and name, not by integer value).
\<close>

definition is_valid :: "DiseasePhase \<Rightarrow> bool" where
  "is_valid dp \<longleftrightarrow> context dp \<in> set (Disease_value (disease dp))"

definition DiseasePhase_init :: "Disease \<Rightarrow> DiseaseContext \<Rightarrow> error + DiseasePhase" where
  "DiseasePhase_init d c =
     (let self = \<lparr>disease = d, context = c\<rparr>
      in if is_valid self then Inr self else Inl ContextNotValidForDisease)"

definition get_all_possible_disease_phases :: "error + DiseasePhase list" where
  "get_all_possible_disease_phases =
     traverse (\<lambda>(d, c). DiseasePhase_init d c)
       (concat (map (\<lambda>d. map (\<lambda>c. (d, c)) (Disease_value d)) Disease_members))"

definition DiseasePhase_str :: "DiseasePhase \<Rightarrow> string" where
  "DiseasePhase_str dp =
     Disease_name (disease dp) @ '' ('' @ DiseaseContext_name (context dp) @ '')''"

definition DiseasePhase_make :: "string \<Rightarrow> string \<Rightarrow> error + DiseasePhase" where
  "DiseasePhase_make d c =
     (case Disease_getattr (py_upper d) of
        None \<Rightarrow> Inl InvalidDisease
      | Some disease_ \<Rightarrow>
          (case DiseaseContext_getattr disease_ (py_upper c) of
             None \<Rightarrow> Inl InvalidContext
           | Some context_ \<Rightarrow> DiseasePhase_init disease_ context_))"

section \<open>Health states\<close>

text \<open>
  A health state holds a frozen set of symptoms and a disease phase; the dataclass compares
  both fields, which is the equality of the record.
\<close>

record HealthState =
  symptoms :: "Symptoms set"
  disease_phase :: DiseasePhase

datatype symptoms_arg = Single Symptoms | Several "Symptoms list"

definition HealthState_init :: "symptoms_arg \<Rightarrow> DiseasePhase \<Rightarrow> HealthState" where
  "HealthState_init syms dp =
     (case syms of
        Single s \<Rightarrow> \<lparr>symptoms = {s}, disease_phase = dp\<rparr>
      | Several xs \<Rightarrow> \<lparr>symptoms = set xs, disease_phase = dp\<rparr>)"

text \<open>
  \<^verbatim>\<open>__str__\<close> iterates over the frozen set, in an order Python does not specify: the
  order is the parameter \<open>iter\<close>, which lists a set.
\<close>

definition HealthState_str :: "(Symptoms set \<Rightarrow> Symptoms list) \<Rightarrow> HealthState \<Rightarrow> string" where
  "HealthState_str iter self =
     (let symptom_description =
            (if card (symptoms self) = 1 then Symptoms_str (hd (iter (symptoms self)))
             else py_join '', '' (map Symptoms_str (iter (symptoms self))))
      in symptom_description @ '' at '' @ DiseasePhase_str (disease_phase self))"

text \<open>An argument that is one string or a sequence of strings.\<close>

datatype str_or_seq = Str string | Seq "string list"

definition HealthState_make ::
  "str_or_seq \<Rightarrow> str_or_seq \<Rightarrow> string \<Rightarrow> string \<Rightarrow> error + HealthState" where
  "HealthState_make sev_arg sym_arg d c =
     (let sev1 = (case sev_arg of Str s \<Rightarrow> [s] | Seq xs \<Rightarrow> xs);
          sym1 = (case sym_arg of Str s \<Rightarrow> [s] | Seq xs \<Rightarrow> xs);
          sev2 = (if length sev1 = 1
                  then concat (replicate (max (length sev1) (length sym1)) sev1) else sev1);
          sym2 = (if length sym1 = 1
                  then concat (replicate (max (length sev2) (length sym1)) sym1) else sym1)
      in case traverse (\<lambda>(a, b). Symptoms_make a b) (zip sev2 sym2) of
           Inl e \<Rightarrow> Inl e
         | Inr syms \<Rightarrow>
             (case DiseasePhase_make d c of
                Inl e \<Rightarrow> Inl e
              | Inr dp \<Rightarrow> Inr (HealthState_init (Several syms) dp)))"

definition parse_symptom_desc :: "string \<Rightarrow> error + string \<times> string" where
  "parse_symptom_desc symptom_desc =
     (case py_split '' '' symptom_desc of
        [a, b] \<Rightarrow> Inr (a, b)
      | [a] \<Rightarrow> Inr (''undefined'', a)
      | _ \<Rightarrow> Inl TooManyComponents)"

definition HealthState_parse :: "string \<Rightarrow> error + HealthState" where
  "HealthState_parse desc =
     (case py_split '' at '' desc of
        [symptoms_desc, disease_desc] \<Rightarrow>
          (case traverse parse_symptom_desc (py_split '', '' symptoms_desc) of
             Inl e \<Rightarrow> Inl e
           | Inr parsed_symptom_descs \<Rightarrow>
               (case py_split '' '' disease_desc of
                  [d, c] \<Rightarrow>
                    HealthState_make (Seq (map fst parsed_symptom_descs))
                      (Seq (map snd parsed_symptom_descs)) d c
                | _ \<Rightarrow> Inl UnpackError))
      | _ \<Rightarrow> Inl UnpackError)"

section \<open>Transition rules\<close>

text \<open>
  A weight function is a value of type \<open>'f\<close>; calling it is the parameter \<open>call\<close> of
  \<open>get_proba\<close>, a function of the rule and the keyword arguments. The dataclass keeps
  the generated \<^verbatim>\<open>__eq__\<close>, which compares all five fields, beside the
  \<^verbatim>\<open>__hash__\<close> of the class, which hashes the two end points; the model keeps the
  hashed pair itself as the hash.
\<close>

record 'f TransitionRule =
  from_health_state :: HealthState
  to_health_state :: HealthState
  proba_score_value :: "real option"
  proba_fn :: "'f option"
  proba_default :: real

definition get_proba ::
  "('f \<Rightarrow> 'f TransitionRule \<Rightarrow> 'k \<Rightarrow> real) \<Rightarrow> 'f TransitionRule \<Rightarrow> 'k \<Rightarrow> real" where
  "get_proba call self kwargs =
     (case proba_fn self of
        Some f \<Rightarrow> call f self kwargs
      | None \<Rightarrow>
          (case proba_score_value self of
             Some v \<Rightarrow> v
           | None \<Rightarrow> proba_default self))"

definition TransitionRule_hash :: "'f TransitionRule \<Rightarrow> HealthState \<times> HealthState" where
  "TransitionRule_hash self = (from_health_state self, to_health_state self)"

definition TransitionRule_eq :: "'f TransitionRule \<Rightarrow> 'f TransitionRule \<Rightarrow> bool" where
  "TransitionRule_eq self other \<longleftrightarrow>
     (from_health_state self, to_health_state self, proba_score_value self, proba_fn self,
      proba_default self)
     = (from_health_state other, to_health_state other, proba_score_value other,
        proba_fn other, proba_default other)"

section \<open>The rule set\<close>

text \<open>
  \<^verbatim>\<open>rule_set\<close> is a \<^verbatim>\<open>defaultdict(set)\<close>. A Python set is a list without
  duplicates here, in insertion order: \<^verbatim>\<open>add\<close> leaves the set as it is when it
  holds an element of the same hash that compares equal, and appends the element otherwise.
  Reading a key the \<^verbatim>\<open>defaultdict\<close> does not have inserts the key with an empty
  set, so reading returns the mapping as well. Python iterates over a set in the order of
  the hashes, which changes from run to run; the list has the elements of the set and not
  that order, so what is proved below about the rules of a key is about which rules they
  are.
\<close>

definition set_add :: "'f TransitionRule list \<Rightarrow> 'f TransitionRule \<Rightarrow> 'f TransitionRule list" where
  "set_add s x =
     (if \<exists>y \<in> set s. TransitionRule_hash y = TransitionRule_hash x \<and> TransitionRule_eq y x
      then s else s @ [x])"

definition defaultdict_getitem :: "('a \<rightharpoonup> 'b list) \<Rightarrow> 'a \<Rightarrow> 'b list \<times> ('a \<rightharpoonup> 'b list)" where
  "defaultdict_getitem d k =
     (case d k of
        Some v \<Rightarrow> (v, d)
      | None \<Rightarrow> ([], d(k \<mapsto> [])))"

record 'f TransitionRuleSet =
  rule_set :: "HealthState \<rightharpoonup> 'f TransitionRule list"

definition TransitionRuleSet_init :: "'f TransitionRuleSet" where
  "TransitionRuleSet_init = \<lparr>rule_set = Map.empty\<rparr>"

definition add_rule :: "'f TransitionRuleSet \<Rightarrow> 'f TransitionRule \<Rightarrow> 'f TransitionRuleSet" where
  "add_rule self transition_rule =
     (let (s, d) = defaultdict_getitem (rule_set self) (from_health_state transition_rule)
      in self\<lparr>rule_set := d(from_health_state transition_rule \<mapsto> set_add s transition_rule)\<rparr>)"

section \<open>Sampling\<close>

text \<open>
  A weight is the real number that the Python float denotes. What
  \<^verbatim>\<open>next_state_probas / next_state_probas.sum()\<close> makes of the weights is computed by
  numpy in binary64, with rounding and overflow, and without raising when the sum is zero:
  that computation is the parameter \<open>normalise\<close>, from the weights to an array of
  floats. \<open>exact_normalise\<close> is the computation without rounding and overflow, which is
  what binary64 gives wherever the sum and the quotients are exact; it serves to run the
  engine on such weights. \<^verbatim>\<open>rng.choice\<close> is the parameter \<open>choice\<close>: given the
  generator, the candidates and the array \<^verbatim>\<open>p\<close>, it returns the candidate drawn and
  the generator advanced, or raises.
\<close>

datatype npfloat = Finite real | PosInf | NegInf | NaN

definition np_divide :: "real \<Rightarrow> real \<Rightarrow> npfloat" where
  "np_divide x s =
     (if s \<noteq> 0 then Finite (x / s)
      else if 0 < x then PosInf
      else if x < 0 then NegInf
      else NaN)"

definition exact_normalise :: "real list \<Rightarrow> npfloat list" where
  "exact_normalise ws = map (\<lambda>x. np_divide x (sum_list ws)) ws"

definition sample_next_health_state ::
  "('r \<Rightarrow> HealthState list \<Rightarrow> npfloat list \<Rightarrow> exc + HealthState \<times> 'r)
   \<Rightarrow> (real list \<Rightarrow> npfloat list)
   \<Rightarrow> ('f \<Rightarrow> 'f TransitionRule \<Rightarrow> 'k \<Rightarrow> real)
   \<Rightarrow> 'f TransitionRuleSet \<Rightarrow> HealthState \<Rightarrow> 'r \<Rightarrow> 'k
   \<Rightarrow> (error + HealthState \<times> 'r) \<times> 'f TransitionRuleSet" where
  "sample_next_health_state choice normalise call self current_health_state rng kwargs =
     (if current_health_state \<notin> dom (rule_set self) then (Inl NoForwardRule, self)
      else
        let (rules, d) = defaultdict_getitem (rule_set self) current_health_state;
            self1 = self\<lparr>rule_set := d\<rparr>;
            pairs = map (\<lambda>r. (to_health_state r, get_proba call r kwargs)) rules
        in if pairs = [] then (Inl UnpackError, self1)
           else
             let candidate_next_health_states = map fst pairs;
                 next_state_probas = map snd pairs;
                 p = normalise next_state_probas
             in case choice rng candidate_next_health_states p of
                  Inl e \<Rightarrow> (Inl (ChoiceRaised e), self1)
                | Inr (next_health_state, rng1) \<Rightarrow> (Inr (next_health_state, rng1), self1))"

text \<open>
  A generator to run the engine with: \<^verbatim>\<open>choice\<close> as numpy documents it. It raises
  ValueError when there is no candidate, when \<^verbatim>\<open>p\<close> has another length than the
  candidates, holds a NaN or a negative entry or does not sum to 1, and otherwise returns
  the first candidate whose cumulative probability exceeds a uniform draw. The generator is
  the position in a stream of uniform draws.
\<close>

fun npfloat_real :: "npfloat \<Rightarrow> real option" where
  "npfloat_real (Finite x) = Some x"
| "npfloat_real _ = None"

fun searchsorted :: "real list \<Rightarrow> real \<Rightarrow> real \<Rightarrow> nat" where
  "searchsorted [] acc u = 0"
| "searchsorted (x # xs) acc u = (if u < acc + x then 0 else Suc (searchsorted xs (acc + x) u))"

definition np_choice ::
  "(nat \<Rightarrow> real) \<Rightarrow> nat \<Rightarrow> HealthState list \<Rightarrow> npfloat list \<Rightarrow> exc + HealthState \<times> nat" where
  "np_choice uniform rng a p =
     (if a = [] \<or> length p \<noteq> length a \<or> NaN \<in> set p then Inl ValueError
      else case those (map npfloat_real p) of
             None \<Rightarrow> Inl ValueError
           | Some ps \<Rightarrow>
               if (\<exists>x \<in> set ps. x < 0) \<or> sum_list ps \<noteq> 1 then Inl ValueError
               else Inr (a ! min (searchsorted ps 0 (uniform rng)) (length a - 1), Suc rng))"

section \<open>Registration\<close>

text \<open>
  \<^verbatim>\<open>add_transition_rule\<close> takes arguments of any Python type and sorts them out
  with \<^verbatim>\<open>isinstance\<close>; \<open>pyval\<close> is the universe of the values it tells apart.
  \<open>PyOther\<close> is any object that is none of the others and cannot be iterated.
\<close>

datatype WildCards = ALL_HEALTH_STATES | ALL_SYMPTOMS | ALL_DISEASE_PHASES

datatype 'f pyval =
    PyNone
  | PyWildCard WildCards
  | PySymptoms Symptoms
  | PyDiseasePhase DiseasePhase
  | PyHealthState HealthState
  | PyTransitionRule "'f TransitionRule"
  | PyIterable "'f pyval list"
  | PyOther

fun as_Symptoms :: "'f pyval \<Rightarrow> Symptoms option" where
  "as_Symptoms (PySymptoms s) = Some s"
| "as_Symptoms _ = None"

fun as_DiseasePhase :: "'f pyval \<Rightarrow> DiseasePhase option" where
  "as_DiseasePhase (PyDiseasePhase dp) = Some dp"
| "as_DiseasePhase _ = None"

fun as_HealthState :: "'f pyval \<Rightarrow> HealthState option" where
  "as_HealthState (PyHealthState hs) = Some hs"
| "as_HealthState _ = None"

fun as_TransitionRule :: "'f pyval \<Rightarrow> 'f TransitionRule option" where
  "as_TransitionRule (PyTransitionRule r) = Some r"
| "as_TransitionRule _ = None"

text \<open>
  The closing \<^verbatim>\<open>assert all([isinstance(x, C) for x in xs])\<close> of each validator.
\<close>

definition assert_all :: "('f pyval \<Rightarrow> 'a option) \<Rightarrow> 'f pyval list \<Rightarrow> error + 'a list" where
  "assert_all as_C xs = (case those (map as_C xs) of None \<Rightarrow> Inl BadElement | Some ys \<Rightarrow> Inr ys)"

fun validate_disease_phase :: "'f pyval \<Rightarrow> bool \<Rightarrow> error + DiseasePhase list" where
  "validate_disease_phase (PyWildCard ALL_DISEASE_PHASES) allow_none =
     (case get_all_possible_disease_phases of
        Inl e \<Rightarrow> Inl e
      | Inr dps \<Rightarrow> assert_all as_DiseasePhase (map PyDiseasePhase dps :: 'f pyval list))"
| "validate_disease_phase (PyIterable xs) allow_none = assert_all as_DiseasePhase xs"
| "validate_disease_phase (PyDiseasePhase dp) allow_none =
     assert_all as_DiseasePhase [PyDiseasePhase dp :: 'f pyval]"
| "validate_disease_phase PyNone allow_none =
     (if allow_none then Inl NoneNotIterable else Inl BadType)"
| "validate_disease_phase other allow_none = (if allow_none then Inl NotNone else Inl BadType)"

fun validate_symptoms :: "'f pyval \<Rightarrow> error + Symptoms list" where
  "validate_symptoms (PyWildCard ALL_SYMPTOMS) =
     assert_all as_Symptoms (map PySymptoms get_all_possible_symptoms :: 'f pyval list)"
| "validate_symptoms (PyIterable xs) = assert_all as_Symptoms xs"
| "validate_symptoms (PySymptoms s) = assert_all as_Symptoms [PySymptoms s :: 'f pyval]"
| "validate_symptoms other = Inl BadType"

fun validate_health_state :: "'f pyval \<Rightarrow> error + HealthState list" where
  "validate_health_state (PyIterable xs) = assert_all as_HealthState xs"
| "validate_health_state (PyHealthState hs) =
     assert_all as_HealthState [PyHealthState hs :: 'f pyval]"
| "validate_health_state other = Inl BadType"

fun validate_transition_rule :: "'f pyval \<Rightarrow> error + 'f TransitionRule list" where
  "validate_transition_rule (PyIterable xs) = assert_all as_TransitionRule xs"
| "validate_transition_rule (PyTransitionRule r) =
     assert_all as_TransitionRule [PyTransitionRule r]"
| "validate_transition_rule other = Inl BadType"

text \<open>
  The keyword arguments of \<^verbatim>\<open>add_transition_rule\<close>, each named as in the source
  after \<open>arg_\<close>; \<open>no_args\<close> holds their defaults.
\<close>

record 'f args =
  arg_transition_rule :: "'f pyval"
  arg_from_health_state :: "'f pyval"
  arg_to_health_state :: "'f pyval"
  arg_from_symptoms :: "'f pyval"
  arg_to_symptoms :: "'f pyval"
  arg_at_disease_phase :: "'f pyval"
  arg_from_disease_phase :: "'f pyval"
  arg_to_disease_phase :: "'f pyval"
  arg_proba_score_value :: "real option"
  arg_proba_fn :: "'f option"

definition no_args :: "'f args" where
  "no_args =
     \<lparr>arg_transition_rule = PyNone, arg_from_health_state = PyNone,
      arg_to_health_state = PyNone, arg_from_symptoms = PyNone, arg_to_symptoms = PyNone,
      arg_at_disease_phase = PyNone, arg_from_disease_phase = PyNone,
      arg_to_disease_phase = PyNone, arg_proba_score_value = None, arg_proba_fn = None\<rparr>"

text \<open>
  The shared phase: validated when one of the two health states is missing, and then a
  list; left as it was given otherwise, and then not read again.
\<close>

definition shared_phase :: "'f args \<Rightarrow> error + DiseasePhase list option" where
  "shared_phase a =
     (if arg_from_health_state a = PyNone \<or> arg_to_health_state a = PyNone
      then (case validate_disease_phase (arg_at_disease_phase a) True of
              Inl e \<Rightarrow> Inl e
            | Inr dps \<Rightarrow> Inr (Some dps))
      else Inr None)"

definition from_states :: "'f args \<Rightarrow> DiseasePhase list option \<Rightarrow> error + HealthState list" where
  "from_states a at_disease_phase =
     (if arg_from_health_state a = PyNone then
        if arg_from_symptoms a = PyNone then Inl MissingFromSymptoms
        else case validate_symptoms (arg_from_symptoms a) of
               Inl e \<Rightarrow> Inl e
             | Inr from_symptoms \<Rightarrow>
                 (case (if arg_from_disease_phase a = PyNone
                        then (case at_disease_phase of
                                None \<Rightarrow> Inl MissingFromPhase
                              | Some dps \<Rightarrow> Inr dps)
                        else validate_disease_phase (arg_from_disease_phase a) False) of
                    Inl e \<Rightarrow> Inl e
                  | Inr from_disease_phase \<Rightarrow>
                      Inr (map (\<lambda>dp. HealthState_init (Several from_symptoms) dp)
                             from_disease_phase))
      else validate_health_state (arg_from_health_state a))"

text \<open>
  On the \<open>to\<close> side the source leaves \<^verbatim>\<open>to_disease_phase\<close> at \<^verbatim>\<open>None\<close>
  when it was not given, and the comprehension then iterates over \<^verbatim>\<open>None\<close>; when
  it was given, the source validates \<^verbatim>\<open>at_disease_phase\<close>, by then a list or
  \<^verbatim>\<open>None\<close>, and assigns that.
\<close>

definition to_states :: "'f args \<Rightarrow> DiseasePhase list option \<Rightarrow> error + HealthState list" where
  "to_states a at_disease_phase =
     (if arg_to_health_state a = PyNone then
        if arg_to_symptoms a = PyNone then Inl MissingToSymptoms
        else case validate_symptoms (arg_to_symptoms a) of
               Inl e \<Rightarrow> Inl e
             | Inr to_symptoms \<Rightarrow>
                 (case (if arg_to_disease_phase a = PyNone
                        then (case at_disease_phase of
                                None \<Rightarrow> Inl MissingToPhase
                              | Some dps \<Rightarrow> Inl NoneNotIterable)
                        else validate_disease_phase
                               (case at_disease_phase of
                                  None \<Rightarrow> (PyNone :: 'f pyval)
                                | Some dps \<Rightarrow> PyIterable (map PyDiseasePhase dps))
                               False) of
                    Inl e \<Rightarrow> Inl e
                  | Inr to_disease_phase \<Rightarrow>
                      Inr (map (\<lambda>dp. HealthState_init (Several to_symptoms) dp)
                             to_disease_phase))
      else validate_health_state (arg_to_health_state a))"

definition make_rules ::
  "'f args \<Rightarrow> HealthState list \<Rightarrow> HealthState list \<Rightarrow> 'f TransitionRule list" where
  "make_rules a froms tos =
     map (\<lambda>(f, t). \<lparr>from_health_state = f, to_health_state = t,
                    proba_score_value = arg_proba_score_value a, proba_fn = arg_proba_fn a,
                    proba_default = 0\<rparr>)
         (List.product froms tos)"

definition resolve_rules :: "'f args \<Rightarrow> error + 'f TransitionRule list" where
  "resolve_rules a =
     (if arg_transition_rule a = PyNone then
        case shared_phase a of
          Inl e \<Rightarrow> Inl e
        | Inr at_disease_phase \<Rightarrow>
            (case from_states a at_disease_phase of
               Inl e \<Rightarrow> Inl e
             | Inr froms \<Rightarrow>
                 (case to_states a at_disease_phase of
                    Inl e \<Rightarrow> Inl e
                  | Inr tos \<Rightarrow> Inr (make_rules a froms tos)))
      else validate_transition_rule (arg_transition_rule a))"

definition add_transition_rule :: "'f TransitionRuleSet \<Rightarrow> 'f args \<Rightarrow> error + 'f TransitionRuleSet" where
  "add_transition_rule self a =
     (case resolve_rules a of
        Inl e \<Rightarrow> Inl e
      | Inr rules \<Rightarrow> Inr (foldl add_rule self rules))"

section \<open>Observations and sample inputs\<close>

text \<open>The rules stored under a key of the rule set; none when the key is absent.\<close>

definition outgoing :: "'f TransitionRuleSet \<Rightarrow> HealthState \<Rightarrow> 'f TransitionRule list" where
  "outgoing self k = (case rule_set self k of None \<Rightarrow> [] | Some s \<Rightarrow> s)"

text \<open>
  The health states of the \<^verbatim>\<open>__main__\<close> block of the source, a rule with a fixed
  score as \<^verbatim>\<open>TransitionRule(f, t, proba_score_value=p)\<close> builds it, and the
  generator used to run the engine: every uniform draw is one half, and no rule has a weight
  function.
\<close>

definition covid_onset :: DiseasePhase where
  "covid_onset = \<lparr>disease = COVID, context = CovidContext_ONSET\<rparr>"

definition covid_plateau :: DiseasePhase where
  "covid_plateau = \<lparr>disease = COVID, context = CovidContext_PLATEAU\<rparr>"

definition mild_fever :: HealthState where
  "mild_fever = \<lparr>symptoms = {\<lparr>severity = MILD, base_symptom = FEVER\<rparr>},
                  disease_phase = covid_onset\<rparr>"

definition moderate_fever :: HealthState where
  "moderate_fever = \<lparr>symptoms = {\<lparr>severity = MODERATE, base_symptom = FEVER\<rparr>},
                      disease_phase = covid_onset\<rparr>"

definition severe_fever_headache :: HealthState where
  "severe_fever_headache =
     \<lparr>symptoms = {\<lparr>severity = SEVERE, base_symptom = FEVER\<rparr>,
                  \<lparr>severity = UNDEFINED, base_symptom = HEADACHE\<rparr>},
      disease_phase = covid_onset\<rparr>"

definition fixed_rule :: "HealthState \<Rightarrow> HealthState \<Rightarrow> real \<Rightarrow> unit TransitionRule" where
  "fixed_rule f t p =
     \<lparr>from_health_state = f, to_health_state = t, proba_score_value = Some p,
      proba_fn = None, proba_default = 0\<rparr>"

text \<open>An order to iterate over a set of symptoms in: the order of declaration.\<close>

definition in_declared_order :: "Symptoms set \<Rightarrow> Symptoms list" where
  "in_declared_order S = filter (\<lambda>s. s \<in> S) get_all_possible_symptoms"

definition half :: "nat \<Rightarrow> real" where
  "half n = 1 / 2"

definition no_call :: "unit \<Rightarrow> unit TransitionRule \<Rightarrow> unit \<Rightarrow> real" where
  "no_call f r kwargs = 0"

section \<open>Disease phases are valid by construction\<close>

lemma all_phases_value:
  "get_all_possible_disease_phases =
     Inr (concat (map (\<lambda>d. map (\<lambda>c. \<lparr>disease = d, context = c\<rparr>) (Disease_value d))
                      Disease_members))"
  by (simp add: get_all_possible_disease_phases_def Disease_members_def DiseasePhase_init_def
      is_valid_def)

text \<open>
  Claim C8. Constructing a disease phase from a disease and a phase that is not in the
  disease's own enumeration fails, with the assertion of the constructor; the enumerator
  \<open>get_all_possible_disease_phases\<close> returns, its result lists every disease with each of
  its own phases, and constructing any of these pairs succeeds; and every disease phase that
  a construction returns holds the two values given and is valid: its phase is a member of
  the enumeration of its disease.
\<close>

theorem DiseasePhase_validity:
  "(c \<notin> set (Disease_value d) \<longrightarrow> DiseasePhase_init d c = Inl ContextNotValidForDisease)
   \<and> (\<exists>dps. get_all_possible_disease_phases = Inr dps
          \<and> map (\<lambda>dp. (disease dp, context dp)) dps
              = concat (map (\<lambda>d. map (\<lambda>c. (d, c)) (Disease_value d)) Disease_members)
          \<and> (\<forall>dp \<in> set dps. DiseasePhase_init (disease dp) (context dp) = Inr dp))
   \<and> (DiseasePhase_init d' c' = Inr dp' \<longrightarrow>
          disease dp' = d' \<and> context dp' = c'
          \<and> context dp' \<in> set (Disease_value (disease dp')))"
proof (intro conjI)
  show "c \<notin> set (Disease_value d) \<longrightarrow> DiseasePhase_init d c = Inl ContextNotValidForDisease"
    by (simp add: DiseasePhase_init_def is_valid_def)
  show "DiseasePhase_init d' c' = Inr dp' \<longrightarrow>
          disease dp' = d' \<and> context dp' = c'
          \<and> context dp' \<in> set (Disease_value (disease dp'))"
    by (auto simp: DiseasePhase_init_def is_valid_def Let_def split: if_splits)
  show "\<exists>dps. get_all_possible_disease_phases = Inr dps
          \<and> map (\<lambda>dp. (disease dp, context dp)) dps
              = concat (map (\<lambda>d. map (\<lambda>c. (d, c)) (Disease_value d)) Disease_members)
          \<and> (\<forall>dp \<in> set dps. DiseasePhase_init (disease dp) (context dp) = Inr dp)"
    unfolding all_phases_value
    by (simp add: Disease_members_def DiseasePhase_init_def is_valid_def)
qed

theorem DiseasePhase_validity_witness:
  "ColdContext_COLD \<notin> set (Disease_value COVID)
   \<and> DiseasePhase_init COVID ColdContext_COLD = Inl ContextNotValidForDisease
   \<and> DiseasePhase_init COVID CovidContext_ONSET
       = Inr \<lparr>disease = COVID, context = CovidContext_ONSET\<rparr>
   \<and> CovidContext_ONSET \<in> set (Disease_value COVID)
   \<and> (\<exists>dps. get_all_possible_disease_phases = Inr dps \<and> length dps = 11
        \<and> (\<forall>dp \<in> set dps. DiseasePhase_init (disease dp) (context dp) = Inr dp))"
  using DiseasePhase_validity [of ColdContext_COLD COVID COVID CovidContext_ONSET
      "\<lparr>disease = COVID, context = CovidContext_ONSET\<rparr>"]
  by (simp add: DiseasePhase_init_def is_valid_def all_phases_value Disease_members_def)

section \<open>Facts about the rule set\<close>

lemmas sample_defs = covid_onset_def covid_plateau_def mild_fever_def moderate_fever_def
  severe_fever_headache_def fixed_rule_def half_def no_call_def

lemma sample_states_distinct:
  "mild_fever \<noteq> moderate_fever" "mild_fever \<noteq> severe_fever_headache"
  "moderate_fever \<noteq> severe_fever_headache" "moderate_fever \<noteq> mild_fever"
  by (auto simp: sample_defs)

lemma TransitionRule_eq_iff: "TransitionRule_eq (x :: 'f TransitionRule) y \<longleftrightarrow> x = y"
  by (auto simp: TransitionRule_eq_def)

lemma set_add_eq: "set_add s (x :: 'f TransitionRule) = (if x \<in> set s then s else s @ [x])"
  by (auto simp: set_add_def TransitionRule_eq_iff)

lemma set_add_not_Nil: "set_add s x \<noteq> []"
  by (auto simp: set_add_def)

lemma outgoing_add_rule:
  "outgoing (add_rule self (r :: 'f TransitionRule)) k =
     (if k = from_health_state r then set_add (outgoing self k) r else outgoing self k)"
  by (auto simp: outgoing_def add_rule_def defaultdict_getitem_def split: option.splits)

lemma dom_add_rule:
  "dom (rule_set (add_rule self r)) = insert (from_health_state r) (dom (rule_set self))"
  by (auto simp: add_rule_def defaultdict_getitem_def split: option.splits)

lemma add_rule_idem: "add_rule (add_rule self r) r = add_rule self (r :: 'f TransitionRule)"
  by (auto simp: add_rule_def defaultdict_getitem_def set_add_eq split: option.splits)

lemma set_outgoing_foldl:
  "set (outgoing (foldl add_rule self rs) k) =
     set (outgoing self k) \<union> {r \<in> set rs. from_health_state r = k}"
proof (induction rs arbitrary: self)
  case Nil
  then show ?case by simp
next
  case (Cons r rs)
  show ?case
    by (auto simp: Cons.IH outgoing_add_rule set_add_eq)
qed

lemma dom_foldl:
  "dom (rule_set (foldl add_rule self rs)) = dom (rule_set self) \<union> from_health_state ` set rs"
  by (induction rs arbitrary: self) (auto simp: dom_add_rule)

text \<open>No registration leaves a key with an empty set of rules.\<close>

lemma add_rule_nonempty:
  "\<forall>k s. rule_set self k = Some s \<longrightarrow> s \<noteq> [] \<Longrightarrow>
   rule_set (add_rule self r) k = Some s \<Longrightarrow> s \<noteq> []"
  by (auto simp: add_rule_def defaultdict_getitem_def set_add_not_Nil
      split: option.splits if_splits)

lemma foldl_nonempty:
  "\<forall>k s. rule_set self k = Some s \<longrightarrow> s \<noteq> [] \<Longrightarrow>
   \<forall>k s. rule_set (foldl add_rule self rs) k = Some s \<longrightarrow> s \<noteq> []"
proof (induction rs arbitrary: self)
  case Nil
  then show ?case by simp
next
  case (Cons r rs)
  have "\<forall>k s. rule_set (add_rule self r) k = Some s \<longrightarrow> s \<noteq> []"
    using add_rule_nonempty [OF Cons.prems] by blast
  from Cons.IH [OF this] show ?case by simp
qed

lemma assert_all_TransitionRule:
  "assert_all as_TransitionRule (map PyTransitionRule rs) = Inr rs"
  by (induction rs) (auto simp: assert_all_def split: option.splits)

section \<open>Sampling reads the rule set and does not write it\<close>

text \<open>
  Claim C9. For every rule set, health state, generator and keyword arguments, the rule set
  after \<open>sample_next_health_state\<close> is the rule set before it, on every path: when the
  state has no rule, when the draw succeeds and when \<^verbatim>\<open>rng.choice\<close> raises. The
  \<^verbatim>\<open>defaultdict\<close> is read only under a key it holds, so the read inserts nothing.
  Only the generator comes back changed, inside the result. (Weight functions are pure
  functions of the rule and the keyword arguments here.)
\<close>

theorem sample_next_health_state_frame:
  "snd (sample_next_health_state choice normalise call self current_health_state rng kwargs) = self"
  by (auto simp: sample_next_health_state_def defaultdict_getitem_def Let_def
      split: option.splits sum.splits prod.splits)

theorem sample_next_health_state_frame_witness:
  "snd (sample_next_health_state (np_choice half) exact_normalise no_call
          (foldl add_rule TransitionRuleSet_init
             [fixed_rule mild_fever moderate_fever (1/2),
              fixed_rule mild_fever severe_fever_headache (1/2)])
          mild_fever 0 ())
   = foldl add_rule TransitionRuleSet_init
       [fixed_rule mild_fever moderate_fever (1/2),
        fixed_rule mild_fever severe_fever_headache (1/2)]"
  using sample_next_health_state_frame [of "np_choice half" exact_normalise no_call
      "foldl add_rule TransitionRuleSet_init
         [fixed_rule mild_fever moderate_fever (1/2),
          fixed_rule mild_fever severe_fever_headache (1/2)]" mild_fever 0 "()"]
  by simp

section \<open>Sampling from a state without rules\<close>

text \<open>
  Claim C7. On a rule set built by registering the rules \<open>rules\<close>, in any order and
  number, \<open>sample_next_health_state\<close> fails with the error of a state without forward
  rule if and only if none of the registered rules leaves the current health state. When
  one does, the result is never that error.
\<close>

theorem no_forward_rule_iff:
  "fst (sample_next_health_state choice normalise call (foldl add_rule TransitionRuleSet_init rules)
          current_health_state rng kwargs) = Inl NoForwardRule
   \<longleftrightarrow> (\<forall>r \<in> set rules. from_health_state r \<noteq> current_health_state)"
proof -
  let ?self = "foldl add_rule TransitionRuleSet_init rules"
  have dom: "dom (rule_set ?self) = from_health_state ` set rules"
    by (simp add: dom_foldl TransitionRuleSet_init_def)
  have ne: "\<forall>k s. rule_set ?self k = Some s \<longrightarrow> s \<noteq> []"
    by (rule foldl_nonempty) (simp add: TransitionRuleSet_init_def)
  show ?thesis
  proof (cases "current_health_state \<in> dom (rule_set ?self)")
    case False
    then show ?thesis
      using dom by (auto simp: sample_next_health_state_def)
  next
    case True
    then obtain s where s: "rule_set ?self current_health_state = Some s" by auto
    with ne have "s \<noteq> []" by blast
    with True s have "fst (sample_next_health_state choice normalise call ?self
          current_health_state rng kwargs) \<noteq> Inl NoForwardRule"
      by (auto simp: sample_next_health_state_def defaultdict_getitem_def Let_def
          split: sum.splits prod.splits)
    moreover have "\<exists>r \<in> set rules. from_health_state r = current_health_state"
      using True dom by auto
    ultimately show ?thesis by auto
  qed
qed

theorem no_forward_rule_iff_witness:
  "fst (sample_next_health_state (np_choice half) exact_normalise no_call
          (foldl add_rule TransitionRuleSet_init
             [fixed_rule mild_fever moderate_fever (1/2),
              fixed_rule mild_fever severe_fever_headache (1/2)])
          moderate_fever 0 ()) = Inl NoForwardRule
   \<and> from_health_state (fixed_rule mild_fever moderate_fever (1/2)) \<noteq> moderate_fever
   \<and> from_health_state (fixed_rule mild_fever severe_fever_headache (1/2)) \<noteq> moderate_fever"
  using no_forward_rule_iff [of "np_choice half" exact_normalise no_call
      "[fixed_rule mild_fever moderate_fever (1/2),
        fixed_rule mild_fever severe_fever_headache (1/2)]" moderate_fever 0 "()"]
  by (simp add: fixed_rule_def sample_states_distinct)

section \<open>Registering rules that are already built\<close>

text \<open>
  Claim C10. When \<open>add_transition_rule\<close> is given a rule, or an iterable of rules, as
  \<^verbatim>\<open>transition_rule\<close>, the result is the rule set with exactly these rules added by
  \<open>add_rule\<close>, whatever the nine other arguments are: under every key the rule set then
  holds the rules it held and the given rules that leave that key, each as it was given.
\<close>

theorem prebuilt_rule_inserted_unchanged:
  "(arg_transition_rule a = PyTransitionRule r \<longrightarrow>
      add_transition_rule self a = Inr (add_rule self r))
   \<and> (arg_transition_rule a = PyIterable (map PyTransitionRule rs) \<longrightarrow>
      add_transition_rule self a = Inr (foldl add_rule self rs))
   \<and> (\<forall>k. set (outgoing (foldl add_rule self rs) k)
           = set (outgoing self k) \<union> {x \<in> set rs. from_health_state x = k})"
  using assert_all_TransitionRule [of "[r]"]
  by (auto simp: add_transition_rule_def resolve_rules_def
      assert_all_TransitionRule set_outgoing_foldl)

theorem prebuilt_rule_inserted_unchanged_witness:
  "add_transition_rule TransitionRuleSet_init
     (no_args\<lparr>arg_transition_rule :=
                 PyTransitionRule (fixed_rule mild_fever moderate_fever (1/2)),
              arg_from_health_state := PyHealthState severe_fever_headache,
              arg_to_symptoms := PyOther,
              arg_proba_score_value := Some 7\<rparr>)
   = Inr (add_rule TransitionRuleSet_init (fixed_rule mild_fever moderate_fever (1/2)))
   \<and> add_transition_rule TransitionRuleSet_init
     (no_args\<lparr>arg_transition_rule := PyIterable (map PyTransitionRule
                 [fixed_rule mild_fever moderate_fever (1/2),
                  fixed_rule mild_fever severe_fever_headache (1/2)]),
              arg_at_disease_phase := PyWildCard ALL_SYMPTOMS\<rparr>)
   = Inr (foldl add_rule TransitionRuleSet_init
            [fixed_rule mild_fever moderate_fever (1/2),
             fixed_rule mild_fever severe_fever_headache (1/2)])"
  using prebuilt_rule_inserted_unchanged [of
      "no_args\<lparr>arg_transition_rule :=
                 PyTransitionRule (fixed_rule mild_fever moderate_fever (1/2)),
              arg_from_health_state := PyHealthState severe_fever_headache,
              arg_to_symptoms := PyOther,
              arg_proba_score_value := Some 7\<rparr>"
      "fixed_rule mild_fever moderate_fever (1/2)" TransitionRuleSet_init "[]"]
    prebuilt_rule_inserted_unchanged [of
      "no_args\<lparr>arg_transition_rule := PyIterable (map PyTransitionRule
                 [fixed_rule mild_fever moderate_fever (1/2),
                  fixed_rule mild_fever severe_fever_headache (1/2)]),
              arg_at_disease_phase := PyWildCard ALL_SYMPTOMS\<rparr>"
      undefined TransitionRuleSet_init
      "[fixed_rule mild_fever moderate_fever (1/2),
        fixed_rule mild_fever severe_fever_headache (1/2)]"]
  by simp

section \<open>Rules with the same end points\<close>

text \<open>
  Claim C3, as the spec states it, fails: two rules from a mild fever to a moderate fever
  with the scores 1/2 and 3/4 have the same hash, and the rule set that both are added to
  holds both.
\<close>

theorem same_endpoints_counterexample:
  "TransitionRule_hash (fixed_rule mild_fever moderate_fever (1/2))
     = TransitionRule_hash (fixed_rule mild_fever moderate_fever (3/4))
   \<and> outgoing (add_rule (add_rule TransitionRuleSet_init
                  (fixed_rule mild_fever moderate_fever (1/2)))
                  (fixed_rule mild_fever moderate_fever (3/4))) mild_fever
       = [fixed_rule mild_fever moderate_fever (1/2),
          fixed_rule mild_fever moderate_fever (3/4)]"
  by (simp add: outgoing_def add_rule_def TransitionRuleSet_init_def defaultdict_getitem_def
      set_add_def TransitionRule_hash_def TransitionRule_eq_def fixed_rule_def)

text \<open>
  Claim C3, amended. Two rules with the same end points have the same hash, but the set
  compares rules on all their fields: when two rules with the same source state differ in
  any field and neither is stored yet, adding both stores both, in addition to what was
  stored; adding a rule never removes or replaces a rule that is stored; and adding a rule
  a second time, equal in every field, leaves the rule set as it is.
\<close>

theorem same_endpoints_both_kept:
  "(from_health_state r1 = from_health_state r2 \<and> to_health_state r1 = to_health_state r2
      \<longrightarrow> TransitionRule_hash r1 = TransitionRule_hash r2)
   \<and> (from_health_state r1 = from_health_state r2 \<and> r1 \<noteq> r2
       \<and> r1 \<notin> set (outgoing self (from_health_state r1))
       \<and> r2 \<notin> set (outgoing self (from_health_state r1))
      \<longrightarrow> outgoing (add_rule (add_rule self r1) r2) (from_health_state r1)
            = outgoing self (from_health_state r1) @ [r1, r2])
   \<and> (old \<in> set (outgoing rs k) \<longrightarrow> old \<in> set (outgoing (add_rule rs new) k))
   \<and> add_rule (add_rule self r1) r1 = add_rule self (r1 :: 'f TransitionRule)"
  by (auto simp: TransitionRule_hash_def outgoing_add_rule set_add_eq add_rule_idem)

theorem same_endpoints_both_kept_witness:
  "from_health_state (fixed_rule mild_fever moderate_fever (1/2))
     = from_health_state (fixed_rule mild_fever moderate_fever (3/4))
   \<and> to_health_state (fixed_rule mild_fever moderate_fever (1/2))
     = to_health_state (fixed_rule mild_fever moderate_fever (3/4))
   \<and> fixed_rule mild_fever moderate_fever (1/2) \<noteq> fixed_rule mild_fever moderate_fever (3/4)
   \<and> fixed_rule mild_fever moderate_fever (1/2)
       \<notin> set (outgoing TransitionRuleSet_init mild_fever)
   \<and> fixed_rule mild_fever moderate_fever (3/4)
       \<notin> set (outgoing TransitionRuleSet_init mild_fever)
   \<and> fixed_rule mild_fever moderate_fever (1/2)
       \<in> set (outgoing (add_rule TransitionRuleSet_init
                          (fixed_rule mild_fever moderate_fever (1/2))) mild_fever)
   \<and> outgoing (add_rule (add_rule TransitionRuleSet_init
                  (fixed_rule mild_fever moderate_fever (1/2)))
                  (fixed_rule mild_fever moderate_fever (3/4))) mild_fever
       = [fixed_rule mild_fever moderate_fever (1/2),
          fixed_rule mild_fever moderate_fever (3/4)]
   \<and> fixed_rule mild_fever moderate_fever (1/2)
       \<in> set (outgoing (add_rule (add_rule TransitionRuleSet_init
                  (fixed_rule mild_fever moderate_fever (1/2)))
                  (fixed_rule mild_fever moderate_fever (3/4))) mild_fever)"
  using same_endpoints_both_kept [of "fixed_rule mild_fever moderate_fever (1/2)"
      "fixed_rule mild_fever moderate_fever (3/4)" TransitionRuleSet_init
      "fixed_rule mild_fever moderate_fever (1/2)"
      "add_rule TransitionRuleSet_init (fixed_rule mild_fever moderate_fever (1/2))"
      mild_fever "fixed_rule mild_fever moderate_fever (3/4)"]
  by (simp add: outgoing_def add_rule_def TransitionRuleSet_init_def defaultdict_getitem_def
      set_add_def TransitionRule_hash_def TransitionRule_eq_def fixed_rule_def)

section \<open>Facts about the validators\<close>

lemma assert_all_Symptoms: "assert_all as_Symptoms (map PySymptoms xs) = Inr xs"
  by (induction xs) (auto simp: assert_all_def split: option.splits)

lemma assert_all_single:
  "assert_all as_DiseasePhase [PyDiseasePhase dp] = Inr [dp]"
  "assert_all as_HealthState [PyHealthState hs] = Inr [hs]"
  "assert_all as_Symptoms [PySymptoms s] = Inr [s]"
  by (simp_all add: assert_all_def)

lemma distinct_all_symptoms: "distinct get_all_possible_symptoms"
  unfolding get_all_possible_symptoms_def
  by (rule iffD2 [OF distinct_map])
     (auto simp: distinct_product Severity_members_def BaseSymptom_members_def inj_on_def)

lemma length_all_symptoms:
  "length get_all_possible_symptoms = length Severity_members * length BaseSymptom_members"
  by (simp add: get_all_possible_symptoms_def)

section \<open>Registering with the wildcard of all symptoms\<close>

text \<open>
  Claim C2, as the spec states it, fails: registering from \<^verbatim>\<open>ALL_SYMPTOMS\<close> at
  the onset of COVID to one health state resolves to a single rule, not to one rule for
  each of the severities times symptom kinds.
\<close>

theorem wildcard_from_symptoms_counterexample:
  "resolve_rules
     (no_args\<lparr>arg_from_symptoms := PyWildCard ALL_SYMPTOMS,
              arg_to_health_state := PyHealthState moderate_fever,
              arg_at_disease_phase := PyDiseasePhase covid_onset,
              arg_proba_score_value := Some (1/2)\<rparr> :: unit args)
   = Inr [\<lparr>from_health_state =
             \<lparr>symptoms = set get_all_possible_symptoms, disease_phase = covid_onset\<rparr>,
           to_health_state = moderate_fever, proba_score_value = Some (1/2),
           proba_fn = None, proba_default = 0\<rparr>]
   \<and> length [\<lparr>from_health_state =
             \<lparr>symptoms = set get_all_possible_symptoms, disease_phase = covid_onset\<rparr>,
           to_health_state = moderate_fever, proba_score_value = Some (1/2),
           proba_fn = None :: unit option, proba_default = 0\<rparr>]
       \<noteq> length Severity_members * length BaseSymptom_members"
  by (simp add: resolve_rules_def shared_phase_def from_states_def to_states_def
      make_rules_def no_args_def assert_all_single assert_all_Symptoms HealthState_init_def
      Severity_members_def BaseSymptom_members_def)

text \<open>
  Claim C2, amended. Called with \<^verbatim>\<open>from_symptoms\<close> the wildcard of all symptoms,
  one \<^verbatim>\<open>to_health_state\<close> and one phase as \<^verbatim>\<open>at_disease_phase\<close> (a
  \<^verbatim>\<open>from_disease_phase\<close>, when one is given too, takes its place on the from side),
  \<open>add_transition_rule\<close> adds exactly one rule. Its source is the one health state that
  holds all symptoms at that phase, as many as there are severities times symptom kinds;
  its destination, score and weight function are the ones given.
\<close>

theorem wildcard_from_symptoms_one_rule:
  assumes "arg_transition_rule a = PyNone" and "arg_from_health_state a = PyNone"
    and "arg_from_symptoms a = PyWildCard ALL_SYMPTOMS"
    and "arg_to_health_state a = PyHealthState t"
    and "arg_at_disease_phase a = PyDiseasePhase dp"
    and "arg_from_disease_phase a = PyNone \<or> arg_from_disease_phase a = PyDiseasePhase dpf"
  shows "add_transition_rule self a =
           Inr (add_rule self
                  \<lparr>from_health_state =
                     \<lparr>symptoms = set get_all_possible_symptoms,
                      disease_phase = (if arg_from_disease_phase a = PyNone then dp else dpf)\<rparr>,
                   to_health_state = t,
                   proba_score_value = arg_proba_score_value a,
                   proba_fn = arg_proba_fn a, proba_default = 0\<rparr>)
         \<and> card (set get_all_possible_symptoms)
             = length Severity_members * length BaseSymptom_members"
proof
  show "card (set get_all_possible_symptoms)
             = length Severity_members * length BaseSymptom_members"
    using distinct_card [OF distinct_all_symptoms] length_all_symptoms by simp
  have at: "shared_phase a = Inr (Some [dp])"
    using assms by (simp add: shared_phase_def assert_all_single)
  have fr: "from_states a (Some [dp]) =
      Inr [\<lparr>symptoms = set get_all_possible_symptoms,
            disease_phase = (if arg_from_disease_phase a = PyNone then dp else dpf)\<rparr>]"
    using assms
    by (auto simp: from_states_def assert_all_Symptoms assert_all_single
        HealthState_init_def)
  have to: "to_states a (Some [dp]) = Inr [t]"
    using assms by (simp add: to_states_def assert_all_single)
  show "add_transition_rule self a =
           Inr (add_rule self
                  \<lparr>from_health_state =
                     \<lparr>symptoms = set get_all_possible_symptoms,
                      disease_phase = (if arg_from_disease_phase a = PyNone then dp else dpf)\<rparr>,
                   to_health_state = t,
                   proba_score_value = arg_proba_score_value a,
                   proba_fn = arg_proba_fn a, proba_default = 0\<rparr>)"
    using assms(1)
    by (simp add: add_transition_rule_def resolve_rules_def at fr to make_rules_def)
qed

theorem wildcard_from_symptoms_one_rule_witness:
  "add_transition_rule TransitionRuleSet_init
     (no_args\<lparr>arg_from_symptoms := PyWildCard ALL_SYMPTOMS,
              arg_to_health_state := PyHealthState moderate_fever,
              arg_at_disease_phase := PyDiseasePhase covid_onset,
              arg_proba_score_value := Some (1/2)\<rparr>)
   = Inr (add_rule TransitionRuleSet_init
            \<lparr>from_health_state =
               \<lparr>symptoms = set get_all_possible_symptoms, disease_phase = covid_onset\<rparr>,
             to_health_state = moderate_fever, proba_score_value = Some (1/2),
             proba_fn = None :: unit option, proba_default = 0\<rparr>)
   \<and> card (set get_all_possible_symptoms)
       = length Severity_members * length BaseSymptom_members"
  using wildcard_from_symptoms_one_rule [of
      "no_args\<lparr>arg_from_symptoms := PyWildCard ALL_SYMPTOMS,
              arg_to_health_state := PyHealthState moderate_fever,
              arg_at_disease_phase := PyDiseasePhase covid_onset,
              arg_proba_score_value := Some (1/2)\<rparr>"
      moderate_fever covid_onset undefined TransitionRuleSet_init]
  by (simp add: no_args_def)

section \<open>The phase of the destination states\<close>

text \<open>
  Claim C4 does not hold of the code. When both sides are given by symptoms and the shared
  phase and both side phases are given, the rule that is registered leaves the symptoms at
  \<^verbatim>\<open>from_disease_phase\<close>, as the claim says, but leads to the symptoms at the
  shared \<^verbatim>\<open>at_disease_phase\<close>: \<^verbatim>\<open>to_disease_phase\<close> is not read beyond
  the test that it is there.
\<close>

theorem to_side_uses_shared_phase:
  assumes "arg_transition_rule a = PyNone"
    and "arg_from_health_state a = PyNone" and "arg_from_symptoms a = PySymptoms sf"
    and "arg_to_health_state a = PyNone" and "arg_to_symptoms a = PySymptoms st"
    and "arg_at_disease_phase a = PyDiseasePhase dpa"
    and "arg_from_disease_phase a = PyDiseasePhase dpf"
    and "arg_to_disease_phase a = PyDiseasePhase dpt"
  shows "add_transition_rule self a =
           Inr (add_rule self
                  \<lparr>from_health_state = \<lparr>symptoms = {sf}, disease_phase = dpf\<rparr>,
                   to_health_state = \<lparr>symptoms = {st}, disease_phase = dpa\<rparr>,
                   proba_score_value = arg_proba_score_value a,
                   proba_fn = arg_proba_fn a, proba_default = 0\<rparr>)"
proof -
  have at: "shared_phase a = Inr (Some [dpa])"
    using assms by (simp add: shared_phase_def assert_all_single)
  have fr: "from_states a (Some [dpa]) = Inr [\<lparr>symptoms = {sf}, disease_phase = dpf\<rparr>]"
    using assms by (simp add: from_states_def assert_all_single HealthState_init_def)
  have to: "to_states a (Some [dpa]) = Inr [\<lparr>symptoms = {st}, disease_phase = dpa\<rparr>]"
    using assms by (simp add: to_states_def assert_all_single HealthState_init_def)
  show ?thesis
    using assms(1)
    by (simp add: add_transition_rule_def resolve_rules_def at fr to make_rules_def)
qed

theorem to_side_uses_shared_phase_witness:
  "add_transition_rule TransitionRuleSet_init
     (no_args\<lparr>arg_from_symptoms := PySymptoms \<lparr>severity = MILD, base_symptom = FEVER\<rparr>,
              arg_to_symptoms := PySymptoms \<lparr>severity = MODERATE, base_symptom = FEVER\<rparr>,
              arg_at_disease_phase := PyDiseasePhase covid_onset,
              arg_from_disease_phase := PyDiseasePhase covid_plateau,
              arg_to_disease_phase := PyDiseasePhase covid_plateau,
              arg_proba_score_value := Some (1/2)\<rparr>)
   = Inr (add_rule TransitionRuleSet_init
            (fixed_rule
               \<lparr>symptoms = {\<lparr>severity = MILD, base_symptom = FEVER\<rparr>},
                disease_phase = covid_plateau\<rparr>
               \<lparr>symptoms = {\<lparr>severity = MODERATE, base_symptom = FEVER\<rparr>},
                disease_phase = covid_onset\<rparr>
               (1/2)))
   \<and> covid_onset \<noteq> covid_plateau"
  using to_side_uses_shared_phase [of
      "no_args\<lparr>arg_from_symptoms := PySymptoms \<lparr>severity = MILD, base_symptom = FEVER\<rparr>,
              arg_to_symptoms := PySymptoms \<lparr>severity = MODERATE, base_symptom = FEVER\<rparr>,
              arg_at_disease_phase := PyDiseasePhase covid_onset,
              arg_from_disease_phase := PyDiseasePhase covid_plateau,
              arg_to_disease_phase := PyDiseasePhase covid_plateau,
              arg_proba_score_value := Some (1/2)\<rparr>"
      "\<lparr>severity = MILD, base_symptom = FEVER\<rparr>"
      "\<lparr>severity = MODERATE, base_symptom = FEVER\<rparr>"
      covid_onset covid_plateau covid_plateau TransitionRuleSet_init]
  by (simp add: no_args_def fixed_rule_def covid_onset_def covid_plateau_def)

section \<open>Sequences of different lengths\<close>

lemmas make_defs = HealthState_make_def Symptoms_make_def DiseasePhase_make_def
  Severity_getattr_def BaseSymptom_getattr_def Disease_getattr_def DiseaseContext_getattr_def
  py_upper_def upper_char_def Severity_members_def BaseSymptom_members_def Disease_members_def
  DiseasePhase_init_def is_valid_def HealthState_init_def

lemma traverse_Inl: "traverse f xs = Inl e \<Longrightarrow> \<exists>x \<in> set xs. f x = Inl e"
  by (induction xs) (auto split: sum.splits)

lemma traverse_Inr: "\<forall>x \<in> set xs. \<exists>y. f x = Inr y \<Longrightarrow> \<exists>ys. traverse f xs = Inr ys \<and> length ys = length xs"
  by (induction xs) (auto split: sum.splits)

lemma Symptoms_make_errors:
  "Symptoms_make a b = Inl e \<Longrightarrow> e = InvalidSeverity \<or> e = InvalidBaseSymptom"
  by (auto simp: Symptoms_make_def split: option.splits)

lemma DiseaseContext_getattr_valid:
  "DiseaseContext_getattr d n = Some c \<Longrightarrow> c \<in> set (Disease_value d)"
  by (auto simp: DiseaseContext_getattr_def find_Some_iff)

lemma DiseasePhase_make_errors:
  "DiseasePhase_make d c = Inl e \<Longrightarrow> e = InvalidDisease \<or> e = InvalidContext"
  by (auto simp: DiseasePhase_make_def DiseasePhase_init_def is_valid_def
      dest: DiseaseContext_getattr_valid split: option.splits if_splits)

lemma zip_take_min:
  "zip (take (min (length xs) (length ys)) xs) (take (min (length xs) (length ys)) ys) = zip xs ys"
proof -
  have "zip (take (min (length xs) (length ys)) xs) (take (min (length xs) (length ys)) ys)
      = take (min (length xs) (length ys)) (zip xs ys)"
    by (simp add: take_zip)
  also have "\<dots> = zip xs ys" by simp
  finally show ?thesis .
qed

lemma traverse_nth:
  "length xs = length ys \<Longrightarrow> \<forall>i < length ys. f (ys ! i) = Inr (xs ! i) \<Longrightarrow>
   traverse f ys = Inr xs"
proof (induction xs ys rule: list_induct2)
  case Nil
  then show ?case by simp
next
  case (Cons x xs y ys)
  have "f y = Inr x" using Cons.prems by auto
  moreover have "\<forall>i < length ys. f (ys ! i) = Inr (xs ! i)"
    using Cons.prems by auto
  ultimately show ?case using Cons.IH by simp
qed

lemma make_of_zip:
  "length sevs \<noteq> 1 \<or> length syms = 1 \<Longrightarrow> length syms \<noteq> 1 \<or> length sevs = 1 \<Longrightarrow>
   HealthState_make (Seq sevs) (Seq syms) d c =
     (case traverse (\<lambda>(a, b). Symptoms_make a b) (zip sevs syms) of
        Inl e \<Rightarrow> Inl e
      | Inr xs \<Rightarrow> (case DiseasePhase_make d c of
                    Inl e \<Rightarrow> Inl e
                  | Inr dp \<Rightarrow> Inr \<lparr>symptoms = set xs, disease_phase = dp\<rparr>))"
  by (auto simp: HealthState_make_def HealthState_init_def Let_def split: sum.splits)

text \<open>
  Claim C5, as the spec states it, fails: three severities and two symptom kinds make a
  health state of two symptoms.
\<close>

theorem make_length_mismatch_counterexample:
  "length [''mild'', ''severe'', ''heavy''] \<noteq> length [''fever'', ''cough'']
   \<and> length [''mild'', ''severe'', ''heavy''] \<noteq> 1 \<and> length [''fever'', ''cough''] \<noteq> 1
   \<and> HealthState_make (Seq [''mild'', ''severe'', ''heavy'']) (Seq [''fever'', ''cough''])
         ''covid'' ''onset''
       = Inr \<lparr>symptoms = {\<lparr>severity = MILD, base_symptom = FEVER\<rparr>,
                           \<lparr>severity = SEVERE, base_symptom = COUGH\<rparr>},
              disease_phase = covid_onset\<rparr>"
  by (simp add: make_defs covid_onset_def)

text \<open>
  Claim C5, amended. Given two sequences of different lengths, neither of length 1,
  \<open>HealthState_make\<close> pairs the tokens by position up to the shorter length and
  ignores the rest: it returns what it returns on the two sequences cut to the shorter
  length. It fails only with the ValueError of a name that is not a severity, symptom kind,
  disease or phase. When the tokens at every position below the shorter length name a
  symptom and the disease and phase name a disease phase, it returns the health state of
  exactly these symptoms at that phase, which has at most as many symptoms as the shorter
  sequence has tokens.
\<close>

theorem make_pairs_up_to_shorter:
  assumes "length sevs \<noteq> length syms" and "length sevs \<noteq> 1" and "length syms \<noteq> 1"
  shows "HealthState_make (Seq sevs) (Seq syms) d c =
           HealthState_make (Seq (take (min (length sevs) (length syms)) sevs))
             (Seq (take (min (length sevs) (length syms)) syms)) d c
         \<and> (\<forall>e. HealthState_make (Seq sevs) (Seq syms) d c = Inl e \<longrightarrow>
                e \<in> {InvalidSeverity, InvalidBaseSymptom, InvalidDisease, InvalidContext})
         \<and> ((\<forall>(a, b) \<in> set (zip sevs syms). \<exists>s. Symptoms_make a b = Inr s)
              \<and> DiseasePhase_make d c = Inr dp \<longrightarrow>
             (\<exists>hs. HealthState_make (Seq sevs) (Seq syms) d c = Inr hs
                   \<and> disease_phase hs = dp
                   \<and> card (symptoms hs) \<le> min (length sevs) (length syms)))
         \<and> (length xs = min (length sevs) (length syms)
              \<and> (\<forall>i < length xs. Symptoms_make (sevs ! i) (syms ! i) = Inr (xs ! i))
              \<and> DiseasePhase_make d c = Inr dp \<longrightarrow>
             HealthState_make (Seq sevs) (Seq syms) d c
               = Inr \<lparr>symptoms = set xs, disease_phase = dp\<rparr>)"
proof (intro conjI)
  let ?n = "min (length sevs) (length syms)"
  have full: "HealthState_make (Seq sevs) (Seq syms) d c =
     (case traverse (\<lambda>(a, b). Symptoms_make a b) (zip sevs syms) of
        Inl e \<Rightarrow> Inl e
      | Inr xs \<Rightarrow> (case DiseasePhase_make d c of
                    Inl e \<Rightarrow> Inl e
                  | Inr dp \<Rightarrow> Inr \<lparr>symptoms = set xs, disease_phase = dp\<rparr>))"
    using assms by (intro make_of_zip) auto
  have "HealthState_make (Seq (take ?n sevs)) (Seq (take ?n syms)) d c =
     (case traverse (\<lambda>(a, b). Symptoms_make a b) (zip (take ?n sevs) (take ?n syms)) of
        Inl e \<Rightarrow> Inl e
      | Inr xs \<Rightarrow> (case DiseasePhase_make d c of
                    Inl e \<Rightarrow> Inl e
                  | Inr dp \<Rightarrow> Inr \<lparr>symptoms = set xs, disease_phase = dp\<rparr>))"
    by (intro make_of_zip) auto
  then show "HealthState_make (Seq sevs) (Seq syms) d c =
           HealthState_make (Seq (take ?n sevs)) (Seq (take ?n syms)) d c"
    by (simp only: full zip_take_min)
  show "\<forall>e. HealthState_make (Seq sevs) (Seq syms) d c = Inl e \<longrightarrow>
                e \<in> {InvalidSeverity, InvalidBaseSymptom, InvalidDisease, InvalidContext}"
    unfolding full
    by (auto split: sum.splits dest!: traverse_Inl Symptoms_make_errors DiseasePhase_make_errors)
  show "(\<forall>(a, b) \<in> set (zip sevs syms). \<exists>s. Symptoms_make a b = Inr s)
              \<and> DiseasePhase_make d c = Inr dp \<longrightarrow>
             (\<exists>hs. HealthState_make (Seq sevs) (Seq syms) d c = Inr hs
                   \<and> disease_phase hs = dp
                   \<and> card (symptoms hs) \<le> ?n)"
  proof
    assume h: "(\<forall>(a, b) \<in> set (zip sevs syms). \<exists>s. Symptoms_make a b = Inr s)
              \<and> DiseasePhase_make d c = Inr dp"
    then have "\<forall>x \<in> set (zip sevs syms). \<exists>y. (\<lambda>(a, b). Symptoms_make a b) x = Inr y"
      by auto
    from traverse_Inr [OF this] obtain ys
      where ys: "traverse (\<lambda>(a, b). Symptoms_make a b) (zip sevs syms) = Inr ys"
        and len: "length ys = length (zip sevs syms)" by blast
    have "card (set ys) \<le> length ys" by (rule card_length)
    with len have "card (set ys) \<le> ?n" by simp
    with h ys show "\<exists>hs. HealthState_make (Seq sevs) (Seq syms) d c = Inr hs
                   \<and> disease_phase hs = dp \<and> card (symptoms hs) \<le> ?n"
      by (simp add: full)
  qed
  show "length xs = ?n
          \<and> (\<forall>i < length xs. Symptoms_make (sevs ! i) (syms ! i) = Inr (xs ! i))
          \<and> DiseasePhase_make d c = Inr dp \<longrightarrow>
        HealthState_make (Seq sevs) (Seq syms) d c
          = Inr \<lparr>symptoms = set xs, disease_phase = dp\<rparr>"
  proof
    assume h: "length xs = ?n
          \<and> (\<forall>i < length xs. Symptoms_make (sevs ! i) (syms ! i) = Inr (xs ! i))
          \<and> DiseasePhase_make d c = Inr dp"
    then have len: "length xs = length (zip sevs syms)" by simp
    have "\<forall>i < length (zip sevs syms).
            (\<lambda>(a, b). Symptoms_make a b) (zip sevs syms ! i) = Inr (xs ! i)"
      using h by simp
    with len have "traverse (\<lambda>(a, b). Symptoms_make a b) (zip sevs syms) = Inr xs"
      by (rule traverse_nth)
    with h show "HealthState_make (Seq sevs) (Seq syms) d c
          = Inr \<lparr>symptoms = set xs, disease_phase = dp\<rparr>"
      by (simp add: full)
  qed
qed

theorem make_pairs_up_to_shorter_witness:
  "length [''mild'', ''severe'', ''heavy''] \<noteq> length [''fever'', ''cough'']
   \<and> length [''mild'', ''severe'', ''heavy''] \<noteq> 1 \<and> length [''fever'', ''cough''] \<noteq> 1
   \<and> Symptoms_make ''mild'' ''fever'' = Inr \<lparr>severity = MILD, base_symptom = FEVER\<rparr>
   \<and> Symptoms_make ''severe'' ''cough'' = Inr \<lparr>severity = SEVERE, base_symptom = COUGH\<rparr>
   \<and> DiseasePhase_make ''covid'' ''onset'' = Inr covid_onset
   \<and> HealthState_make (Seq [''mild'', ''severe'', ''heavy'']) (Seq [''fever'', ''cough''])
         ''covid'' ''onset''
       = HealthState_make (Seq [''mild'', ''severe'']) (Seq [''fever'', ''cough''])
           ''covid'' ''onset''
   \<and> (\<exists>hs. HealthState_make (Seq [''mild'', ''severe'', ''heavy''])
                (Seq [''fever'', ''cough'']) ''covid'' ''onset'' = Inr hs
            \<and> disease_phase hs = covid_onset \<and> card (symptoms hs) \<le> 2)
   \<and> HealthState_make (Seq [''mild'', ''severe'', ''heavy''])
         (Seq [''fever'', ''cough'']) ''covid'' ''onset''
       = Inr \<lparr>symptoms = {\<lparr>severity = MILD, base_symptom = FEVER\<rparr>,
                           \<lparr>severity = SEVERE, base_symptom = COUGH\<rparr>},
              disease_phase = covid_onset\<rparr>"
proof -
  have a: "length [''mild'', ''severe'', ''heavy''] \<noteq> length [''fever'', ''cough'']"
    and b: "length [''mild'', ''severe'', ''heavy''] \<noteq> 1"
    and c: "length [''fever'', ''cough''] \<noteq> 1"
    by simp_all
  have d: "\<forall>(a, b) \<in> set (zip [''mild'', ''severe'', ''heavy''] [''fever'', ''cough'']).
          \<exists>s. Symptoms_make a b = Inr s"
    by (simp add: make_defs)
  have e: "DiseasePhase_make ''covid'' ''onset'' = Inr covid_onset"
    by (simp add: make_defs covid_onset_def)
  note t = make_pairs_up_to_shorter [OF a b c, where d = "''covid''" and c = "''onset''"
      and dp = covid_onset
      and xs = "[\<lparr>severity = MILD, base_symptom = FEVER\<rparr>,
                 \<lparr>severity = SEVERE, base_symptom = COUGH\<rparr>]"]
  have f: "HealthState_make (Seq [''mild'', ''severe'', ''heavy'']) (Seq [''fever'', ''cough''])
         ''covid'' ''onset''
       = HealthState_make (Seq [''mild'', ''severe'']) (Seq [''fever'', ''cough''])
           ''covid'' ''onset''"
    using conjunct1 [OF t] by simp
  have g: "\<exists>hs. HealthState_make (Seq [''mild'', ''severe'', ''heavy''])
                (Seq [''fever'', ''cough'']) ''covid'' ''onset'' = Inr hs
            \<and> disease_phase hs = covid_onset \<and> card (symptoms hs) \<le> 2"
    using conjunct1 [OF conjunct2 [OF conjunct2 [OF t]]] d e by (simp add: numeral_2_eq_2)
  have h: "Symptoms_make ''mild'' ''fever'' = Inr \<lparr>severity = MILD, base_symptom = FEVER\<rparr>"
    and i: "Symptoms_make ''severe'' ''cough'' = Inr \<lparr>severity = SEVERE, base_symptom = COUGH\<rparr>"
    by (simp_all add: make_defs)
  have j: "HealthState_make (Seq [''mild'', ''severe'', ''heavy''])
             (Seq [''fever'', ''cough'']) ''covid'' ''onset''
           = Inr \<lparr>symptoms = {\<lparr>severity = MILD, base_symptom = FEVER\<rparr>,
                               \<lparr>severity = SEVERE, base_symptom = COUGH\<rparr>},
                  disease_phase = covid_onset\<rparr>"
    using conjunct2 [OF conjunct2 [OF conjunct2 [OF t]]] h i e
    by (simp add: less_Suc_eq)
  from a b c h i e f g j show ?thesis by (intro conjI)
qed

section \<open>Weights that are negative or sum to zero\<close>

lemma sum_list_divide: "sum_list (map (\<lambda>x. x / c) xs) = sum_list xs / (c::real)"
  by (induction xs) (simp_all add: add_divide_distrib)

lemma sum_list_neg: "xs \<noteq> [] \<Longrightarrow> \<forall>x \<in> set xs. x < (0::real) \<Longrightarrow> sum_list xs < 0"
proof (induction xs)
  case Nil
  then show ?case by simp
next
  case (Cons a xs)
  show ?case
  proof (cases "xs = []")
    case True
    with Cons.prems show ?thesis by simp
  next
    case False
    with Cons have "sum_list xs < 0" by simp
    moreover have "a < 0" using Cons.prems by simp
    ultimately show ?thesis by simp
  qed
qed

lemma exact_normalise_negative:
  assumes "ws \<noteq> []" and "\<forall>w \<in> set ws. w < (0::real)"
  shows "exact_normalise ws = map Finite (map (\<lambda>w. w / sum_list ws) ws)"
    and "\<forall>x \<in> set (map (\<lambda>w. w / sum_list ws) ws). 0 < x"
    and "sum_list (map (\<lambda>w. w / sum_list ws) ws) = 1"
proof -
  have neg: "sum_list ws < 0" using assms by (rule sum_list_neg)
  then show "exact_normalise ws = map Finite (map (\<lambda>w. w / sum_list ws) ws)"
    by (simp add: exact_normalise_def np_divide_def)
  show "\<forall>x \<in> set (map (\<lambda>w. w / sum_list ws) ws). 0 < x"
    using assms(2) neg by (auto intro: divide_neg_neg)
  show "sum_list (map (\<lambda>w. w / sum_list ws) ws) = 1"
    using neg by (simp add: sum_list_divide)
qed

lemma those_map_Finite: "those (map (npfloat_real \<circ> Finite) ps) = Some ps"
  by (induction ps) auto

lemma NaN_notin_Finite: "NaN \<notin> set (map Finite ps)"
  by auto

lemma np_choice_valid:
  assumes "a \<noteq> []" and "length ps = length a" and "\<forall>x \<in> set ps. 0 < x"
    and "sum_list ps = 1"
  shows "\<exists>h \<in> set a. np_choice uniform rng a (map Finite ps) = Inr (h, Suc rng)"
proof -
  have "min (searchsorted ps 0 (uniform rng)) (length a - 1) < length a"
    using assms(1) by (cases a) auto
  then have "a ! min (searchsorted ps 0 (uniform rng)) (length a - 1) \<in> set a"
    by (rule nth_mem)
  moreover have "\<not> (\<exists>x \<in> set ps. x < 0)" using assms(3) by fastforce
  ultimately show ?thesis
    using assms NaN_notin_Finite [of ps]
    by (simp add: np_choice_def those_map_Finite del: set_map)
qed

lemma sample_with_rules:
  assumes "rule_set self current_health_state = Some rules" and "rules \<noteq> []"
  shows "fst (sample_next_health_state choice normalise call self current_health_state rng
                kwargs)
           = (case choice rng (map to_health_state rules)
                     (normalise (map (\<lambda>r. get_proba call r kwargs) rules)) of
                Inl e \<Rightarrow> Inl (ChoiceRaised e)
              | Inr drawn \<Rightarrow> Inr drawn)"
  using assms
  by (auto simp: sample_next_health_state_def defaultdict_getitem_def Let_def comp_def
      split: sum.splits)

text \<open>
  Claim C6, as the spec states it, fails: from a state whose two rules have the weights
  -1 and -3, for which the sum -4 and the quotients 1/4 and 3/4 are exact in binary64,
  sampling raises nothing and returns a state.
\<close>

theorem negative_weights_counterexample:
  "get_proba no_call (fixed_rule mild_fever moderate_fever (-1)) () < 0
   \<and> exact_normalise [-1, -3] = [Finite (1/4), Finite (3/4)]
   \<and> fst (sample_next_health_state (np_choice half) exact_normalise no_call
        (foldl add_rule TransitionRuleSet_init
           [fixed_rule mild_fever moderate_fever (-1),
            fixed_rule mild_fever severe_fever_headache (-3)])
        mild_fever 0 ())
     = Inr (severe_fever_headache, 1)"
  by (simp add: sample_next_health_state_def defaultdict_getitem_def get_proba_def
      fixed_rule_def exact_normalise_def np_divide_def np_choice_def half_def add_rule_def
      TransitionRuleSet_init_def set_add_def TransitionRule_hash_def TransitionRule_eq_def
      sample_states_distinct)

text \<open>
  Claim C6, amended. For a state that has rules, \<open>sample_next_health_state\<close> checks
  nothing about the weights, whatever their signs and their sum: it hands the destinations
  and the array that the division of the weights by their sum gives, however that division
  is computed, to \<^verbatim>\<open>rng.choice\<close>, and its outcome is that of
  \<^verbatim>\<open>rng.choice\<close>; the only exception it can end with is one that
  \<^verbatim>\<open>rng.choice\<close> raises. Where the division gives the exact quotients of weights
  that are all negative, these quotients are positive and sum to 1, and a generator that
  checks its probabilities as numpy does draws one of the destinations.
\<close>

theorem sample_hands_weights_to_choice:
  assumes "rule_set self current_health_state = Some rules" and "rules \<noteq> []"
  shows "fst (sample_next_health_state choice normalise call self current_health_state rng
                kwargs)
           = (case choice rng (map to_health_state rules)
                     (normalise (map (\<lambda>r. get_proba call r kwargs) rules)) of
                Inl e \<Rightarrow> Inl (ChoiceRaised e)
              | Inr drawn \<Rightarrow> Inr drawn)
         \<and> (\<forall>e. fst (sample_next_health_state choice normalise call self
                        current_health_state rng kwargs) = Inl e
                \<longrightarrow> (\<exists>x. choice rng (map to_health_state rules)
                            (normalise (map (\<lambda>r. get_proba call r kwargs) rules)) = Inl x
                         \<and> e = ChoiceRaised x))
         \<and> ((\<forall>r \<in> set rules. get_proba call r kwargs < 0)
              \<and> normalise (map (\<lambda>r. get_proba call r kwargs) rules)
                  = exact_normalise (map (\<lambda>r. get_proba call r kwargs) rules) \<longrightarrow>
              (\<exists>ps. normalise (map (\<lambda>r. get_proba call r kwargs) rules) = map Finite ps
                    \<and> length ps = length rules
                    \<and> (\<forall>x \<in> set ps. 0 < x) \<and> sum_list ps = 1)
              \<and> (\<exists>h \<in> to_health_state ` set rules.
                    fst (sample_next_health_state (np_choice uniform) normalise call self
                           current_health_state n kwargs) = Inr (h, Suc n)))"
proof (intro conjI)
  let ?ws = "map (\<lambda>r. get_proba call r kwargs) rules"
  note run = sample_with_rules [OF assms]
  show "fst (sample_next_health_state choice normalise call self current_health_state rng
                kwargs)
           = (case choice rng (map to_health_state rules) (normalise ?ws) of
                Inl e \<Rightarrow> Inl (ChoiceRaised e)
              | Inr drawn \<Rightarrow> Inr drawn)"
    by (rule run)
  show "\<forall>e. fst (sample_next_health_state choice normalise call self
                        current_health_state rng kwargs) = Inl e
                \<longrightarrow> (\<exists>x. choice rng (map to_health_state rules) (normalise ?ws) = Inl x
                         \<and> e = ChoiceRaised x)"
    unfolding run by (auto split: sum.splits)
  show "(\<forall>r \<in> set rules. get_proba call r kwargs < 0)
              \<and> normalise ?ws = exact_normalise ?ws \<longrightarrow>
              (\<exists>ps. normalise ?ws = map Finite ps \<and> length ps = length rules
                    \<and> (\<forall>x \<in> set ps. 0 < x) \<and> sum_list ps = 1)
              \<and> (\<exists>h \<in> to_health_state ` set rules.
                    fst (sample_next_health_state (np_choice uniform) normalise call self
                           current_health_state n kwargs) = Inr (h, Suc n))"
  proof
    assume h: "(\<forall>r \<in> set rules. get_proba call r kwargs < 0)
              \<and> normalise ?ws = exact_normalise ?ws"
    have ne: "?ws \<noteq> []" using assms(2) by simp
    have all: "\<forall>w \<in> set ?ws. w < 0" using h by simp
    let ?ps = "map (\<lambda>w. w / sum_list ?ws) ?ws"
    note e = exact_normalise_negative [OF ne all]
    have eq: "normalise ?ws = map Finite ?ps" using e(1) h by simp
    have "\<exists>h \<in> set (map to_health_state rules).
            np_choice uniform n (map to_health_state rules) (map Finite ?ps) = Inr (h, Suc n)"
      using assms(2) e(2) e(3) by (intro np_choice_valid) simp_all
    then have "\<exists>h \<in> to_health_state ` set rules.
                    fst (sample_next_health_state (np_choice uniform) normalise call self
                           current_health_state n kwargs) = Inr (h, Suc n)"
      unfolding sample_with_rules [OF assms] eq by auto
    moreover have "length ?ps = length rules" by simp
    ultimately show "(\<exists>ps. normalise ?ws = map Finite ps \<and> length ps = length rules
                    \<and> (\<forall>x \<in> set ps. 0 < x) \<and> sum_list ps = 1)
              \<and> (\<exists>h \<in> to_health_state ` set rules.
                    fst (sample_next_health_state (np_choice uniform) normalise call self
                           current_health_state n kwargs) = Inr (h, Suc n))"
      using eq e(2) e(3) by blast
  qed
qed

theorem sample_hands_weights_to_choice_witness:
  "rule_set (foldl add_rule TransitionRuleSet_init
           [fixed_rule mild_fever moderate_fever (-1),
            fixed_rule mild_fever severe_fever_headache (-3)]) mild_fever
     = Some [fixed_rule mild_fever moderate_fever (-1),
            fixed_rule mild_fever severe_fever_headache (-3)]
   \<and> get_proba no_call (fixed_rule mild_fever moderate_fever (-1)) () < 0
   \<and> get_proba no_call (fixed_rule mild_fever severe_fever_headache (-3)) () < 0
   \<and> fst (sample_next_health_state (np_choice half) exact_normalise no_call
        (foldl add_rule TransitionRuleSet_init
           [fixed_rule mild_fever moderate_fever (-1),
            fixed_rule mild_fever severe_fever_headache (-3)])
        mild_fever 0 ())
     = (case np_choice half 0 [moderate_fever, severe_fever_headache]
               [Finite (1/4), Finite (3/4)] of
          Inl e \<Rightarrow> Inl (ChoiceRaised e) | Inr drawn \<Rightarrow> Inr drawn)
   \<and> (\<exists>h \<in> {moderate_fever, severe_fever_headache}.
         fst (sample_next_health_state (np_choice half) exact_normalise no_call
        (foldl add_rule TransitionRuleSet_init
           [fixed_rule mild_fever moderate_fever (-1),
            fixed_rule mild_fever severe_fever_headache (-3)])
        mild_fever 0 ()) = Inr (h, Suc 0))"
proof -
  have a: "rule_set (foldl add_rule TransitionRuleSet_init
           [fixed_rule mild_fever moderate_fever (-1),
            fixed_rule mild_fever severe_fever_headache (-3)]) mild_fever
     = Some [fixed_rule mild_fever moderate_fever (-1),
            fixed_rule mild_fever severe_fever_headache (-3)]"
    by (simp add: add_rule_def TransitionRuleSet_init_def defaultdict_getitem_def
        set_add_def TransitionRule_hash_def TransitionRule_eq_def fixed_rule_def
        sample_states_distinct)
  have b: "[fixed_rule mild_fever moderate_fever (-1),
            fixed_rule mild_fever severe_fever_headache (-3)] \<noteq> []" by simp
  have c: "\<forall>r \<in> set [fixed_rule mild_fever moderate_fever (-1),
            fixed_rule mild_fever severe_fever_headache (-3)]. get_proba no_call r () < 0"
    by (simp add: get_proba_def fixed_rule_def)
  note t = sample_hands_weights_to_choice [OF a b, of "np_choice half" exact_normalise
      no_call 0 "()" half 0]
  have d: "fst (sample_next_health_state (np_choice half) exact_normalise no_call
        (foldl add_rule TransitionRuleSet_init
           [fixed_rule mild_fever moderate_fever (-1),
            fixed_rule mild_fever severe_fever_headache (-3)])
        mild_fever 0 ())
     = (case np_choice half 0 [moderate_fever, severe_fever_headache]
               [Finite (1/4), Finite (3/4)] of
          Inl e \<Rightarrow> Inl (ChoiceRaised e) | Inr drawn \<Rightarrow> Inr drawn)"
    using conjunct1 [OF t]
    by (simp add: get_proba_def fixed_rule_def exact_normalise_def np_divide_def)
  have e: "\<exists>h \<in> {moderate_fever, severe_fever_headache}.
         fst (sample_next_health_state (np_choice half) exact_normalise no_call
        (foldl add_rule TransitionRuleSet_init
           [fixed_rule mild_fever moderate_fever (-1),
            fixed_rule mild_fever severe_fever_headache (-3)])
        mild_fever 0 ()) = Inr (h, Suc 0)"
    using conjunct2 [OF conjunct2 [OF t]] c by (simp add: fixed_rule_def)
  have f: "get_proba no_call (fixed_rule mild_fever moderate_fever (-1)) () < 0"
    and g: "get_proba no_call (fixed_rule mild_fever severe_fever_headache (-3)) () < 0"
    by (simp_all add: get_proba_def fixed_rule_def)
  from a f g d e show ?thesis by (intro conjI)
qed

section \<open>Splitting and joining\<close>

text \<open>
  A separator with a character \<open>c\<close> that occurs neither before \<open>c\<close> in the
  separator nor in any of the parts cuts the joined parts back into the parts.
\<close>

lemma py_split_no_marker: "c \<in> set sep \<Longrightarrow> c \<notin> set s \<Longrightarrow> py_split sep s = [s]"
proof (induction s)
  case Nil
  then show ?case by simp
next
  case (Cons x xs)
  from Cons.prems obtain d ds where sep: "sep = d # ds" by (cases sep) auto
  have "\<not> prefix sep (x # xs)"
  proof
    assume "prefix sep (x # xs)"
    then have "set sep \<subseteq> set (x # xs)" by (rule set_mono_prefix)
    with Cons.prems show False by auto
  qed
  moreover have "py_split sep xs = [xs]" using Cons by simp
  ultimately show ?case by (simp add: sep)
qed

lemma not_prefix_marker:
  assumes "c \<notin> set u" and "c \<notin> set p" and "p \<noteq> []"
  shows "\<not> prefix (u @ c # v) (p @ u @ c # v @ rest)"
proof
  assume pre: "prefix (u @ c # v) (p @ u @ c # v @ rest)"
  have "prefix (u @ [c]) (u @ c # v)" by (simp add: prefix_def)
  with pre have "prefix (u @ [c]) ((p @ u) @ c # v @ rest)"
    by (metis append.assoc prefix_order.trans)
  moreover have "length (u @ [c]) \<le> length (p @ u)"
    using assms(3) by (cases p) auto
  ultimately have "prefix (u @ [c]) (p @ u)"
    by (metis prefix_length_prefix prefixI)
  then have "set (u @ [c]) \<subseteq> set (p @ u)" by (rule set_mono_prefix)
  with assms show False by auto
qed

lemma py_split_Cons:
  "sep \<noteq> [] \<Longrightarrow>
   py_split sep (x # cs) =
     (if prefix sep (x # cs) then [] # py_split sep (drop (length sep) (x # cs))
      else (case py_split sep cs of [] \<Rightarrow> [[x]] | p # ps \<Rightarrow> (x # p) # ps))"
  by (cases sep) simp_all

lemma py_split_step:
  assumes "sep = u @ c # v" and "c \<notin> set u" and "c \<notin> set p"
  shows "py_split sep (p @ sep @ rest) = p # py_split sep rest"
  using assms(3)
proof (induction p)
  case Nil
  have ne: "sep \<noteq> []" using assms(1) by simp
  then obtain d ds where "sep @ rest = d # ds" by (cases sep) auto
  then have "py_split sep (sep @ rest) =
      (if prefix sep (sep @ rest) then [] # py_split sep (drop (length sep) (sep @ rest))
       else (case py_split sep ds of [] \<Rightarrow> [[d]] | p # ps \<Rightarrow> (d # p) # ps))"
    using py_split_Cons [OF ne, of d ds] by simp
  then show ?case by simp
next
  case (Cons x xs)
  have ne: "sep \<noteq> []" using assms(1) by simp
  have "\<not> prefix (u @ c # v) ((x # xs) @ u @ c # v @ rest)"
    using assms(2) Cons.prems by (intro not_prefix_marker) auto
  then have np: "\<not> prefix sep (x # (xs @ sep @ rest))"
    using assms(1) by simp
  have ih: "py_split sep (xs @ sep @ rest) = xs # py_split sep rest"
    using Cons by simp
  show ?case
    using py_split_Cons [OF ne, of x "xs @ sep @ rest"] np ih by simp
qed

lemma py_split_join:
  assumes "sep = u @ c # v" and "c \<notin> set u" and "\<forall>p \<in> set ps. c \<notin> set p" and "ps \<noteq> []"
  shows "py_split sep (py_join sep ps) = ps"
  using assms(3,4)
proof (induction ps rule: induct_list012)
  case 1
  then show ?case by simp
next
  case (2 p)
  then show ?case using assms(1) by (simp add: py_split_no_marker [of c])
next
  case (3 p q ps)
  then have "py_split sep (py_join sep (q # ps)) = q # ps" by simp
  moreover have "c \<notin> set p" using 3 by simp
  ultimately show ?case
    using py_split_step [OF assms(1,2), of p "py_join sep (q # ps)"] by simp
qed

lemma set_py_join: "set (py_join sep ps) \<subseteq> set sep \<union> \<Union> (set ` set ps)"
  by (induction sep ps rule: py_join.induct) auto

lemma Severity_name_chars:
  "c \<in> {CHR '' '', CHR '','', CHR ''a'', CHR ''(''} \<Longrightarrow>
   c \<notin> set (Severity_name s)"
  by (cases s) auto

lemma BaseSymptom_name_chars:
  "c \<in> {CHR '' '', CHR '','', CHR ''a'', CHR ''(''} \<Longrightarrow>
   c \<notin> set (BaseSymptom_name s)"
  by (cases s) auto

lemma Disease_name_chars:
  "c \<in> {CHR '' '', CHR '','', CHR ''a'', CHR ''(''} \<Longrightarrow>
   c \<notin> set (Disease_name s)"
  by (cases s) auto

lemma DiseaseContext_name_chars:
  "c \<in> {CHR '' '', CHR '','', CHR ''a'', CHR ''(''} \<Longrightarrow>
   c \<notin> set (DiseaseContext_name s)"
  by (cases s) auto

lemma Severity_lookup: "Severity_getattr (py_upper (Severity_name s)) = Some s"
  by (cases s) (simp_all add: Severity_getattr_def Severity_members_def py_upper_def upper_char_def)

lemma BaseSymptom_lookup: "BaseSymptom_getattr (py_upper (BaseSymptom_name s)) = Some s"
  by (cases s; hypsubst; code_simp)

lemma Disease_lookup: "Disease_getattr (py_upper (Disease_name d)) = Some d"
  by (cases d) (simp_all add: Disease_getattr_def Disease_members_def py_upper_def upper_char_def)

lemma DiseaseContext_upper: "py_upper (DiseaseContext_name c) = DiseaseContext_name c"
  by (cases c) (simp_all add: py_upper_def upper_char_def)

lemma DiseaseContext_lookup:
  "c \<in> set (Disease_value d) \<Longrightarrow>
   DiseaseContext_getattr d (py_upper (DiseaseContext_name c)) = Some c"
  unfolding DiseaseContext_upper
  by (cases d; cases c; simp add: DiseaseContext_getattr_def)

lemma DiseaseContext_paren:
  "DiseaseContext_getattr d (py_upper (''('' @ DiseaseContext_name c @ '')'')) = None"
proof -
  have "CHR ''('' \<in> set (py_upper (''('' @ DiseaseContext_name c @ '')''))"
    by (simp add: py_upper_def upper_char_def)
  then have "\<forall>m. DiseaseContext_name m \<noteq> py_upper (''('' @ DiseaseContext_name c @ '')'')"
    using DiseaseContext_name_chars [of "CHR ''(''"] by (metis insertI1 insert_commute)
  then show ?thesis
    by (simp add: DiseaseContext_getattr_def find_None_iff)
qed

lemma Symptoms_make_names:
  "Symptoms_make (Severity_name (severity s)) (BaseSymptom_name (base_symptom s)) = Inr s"
  by (simp add: Symptoms_make_def Severity_lookup BaseSymptom_lookup)

lemma DiseasePhase_make_names:
  "is_valid dp \<Longrightarrow>
   DiseasePhase_make (Disease_name (disease dp)) (DiseaseContext_name (context dp)) = Inr dp"
  by (simp add: DiseasePhase_make_def Disease_lookup DiseaseContext_lookup is_valid_def
      DiseasePhase_init_def)

lemma DiseasePhase_make_paren:
  "DiseasePhase_make (Disease_name (disease dp)) (''('' @ DiseaseContext_name (context dp) @ '')'')
     = Inl InvalidContext"
  using DiseaseContext_paren [of "disease dp" "context dp"]
  by (simp add: DiseasePhase_make_def Disease_lookup)

lemma Symptoms_str_chars: "c \<in> {CHR '','', CHR ''a''} \<Longrightarrow> c \<notin> set (Symptoms_str s)"
  using Severity_name_chars [of c] BaseSymptom_name_chars [of c]
  by (auto simp: Symptoms_str_def)

lemma parse_symptom_desc_str:
  "parse_symptom_desc (Symptoms_str s) =
     Inr (Severity_name (severity s), BaseSymptom_name (base_symptom s))"
proof -
  have "py_split '' '' (Severity_name (severity s) @ '' '' @ BaseSymptom_name (base_symptom s))
      = Severity_name (severity s) # py_split '' '' (BaseSymptom_name (base_symptom s))"
    using py_split_step [of "'' ''" "[]" "CHR '' ''" "[]" "Severity_name (severity s)"]
      Severity_name_chars [of "CHR '' ''"] by simp
  also have "py_split '' '' (BaseSymptom_name (base_symptom s)) = [BaseSymptom_name (base_symptom s)]"
    using py_split_no_marker [of "CHR '' ''" "'' ''"] BaseSymptom_name_chars [of "CHR '' ''"]
    by simp
  finally show ?thesis
    by (simp add: parse_symptom_desc_def Symptoms_str_def)
qed

lemma split_symptoms:
  assumes "xs \<noteq> []"
  shows "py_split '', '' (py_join '', '' (map Symptoms_str xs)) = map Symptoms_str xs"
  using assms Symptoms_str_chars [of "CHR '',''"]
  by (intro py_split_join [of _ "[]" "CHR '',''" "'' ''"]) auto

lemma join_no_a: "CHR ''a'' \<notin> set (py_join '', '' (map Symptoms_str xs))"
  using set_py_join [of "'', ''" "map Symptoms_str xs"] Symptoms_str_chars [of "CHR ''a''"]
  by auto

lemma split_at:
  assumes "CHR ''a'' \<notin> set p" and "CHR ''a'' \<notin> set q"
  shows "py_split '' at '' (p @ '' at '' @ q) = [p, q]"
  using py_split_step [of "'' at ''" "'' ''" "CHR ''a''" "''t ''" p q] assms
    py_split_no_marker [of "CHR ''a''" "'' at ''" q]
  by simp

lemma split_space:
  assumes "CHR '' '' \<notin> set p" and "CHR '' '' \<notin> set q"
  shows "py_split '' '' (p @ '' '' @ q) = [p, q]"
  using py_split_step [of "'' ''" "[]" "CHR '' ''" "[]" p q] assms
    py_split_no_marker [of "CHR '' ''" "'' ''" q]
  by simp

lemma make_names:
  assumes "xs \<noteq> []"
  shows "HealthState_make (Seq (map (\<lambda>s. Severity_name (severity s)) xs))
           (Seq (map (\<lambda>s. BaseSymptom_name (base_symptom s)) xs)) d c =
         (case DiseasePhase_make d c of
            Inl e \<Rightarrow> Inl e
          | Inr dp \<Rightarrow> Inr \<lparr>symptoms = set xs, disease_phase = dp\<rparr>)"
proof -
  let ?sev = "map (\<lambda>s. Severity_name (severity s)) xs"
  let ?sym = "map (\<lambda>s. BaseSymptom_name (base_symptom s)) xs"
  have z: "zip ?sev ?sym = map (\<lambda>s. (Severity_name (severity s), BaseSymptom_name (base_symptom s))) xs"
    by (induction xs) auto
  have t: "traverse (\<lambda>(a, b). Symptoms_make a b) (zip ?sev ?sym) = Inr xs"
    unfolding z by (induction xs) (auto simp: Symptoms_make_names)
  show ?thesis
    using t by (auto simp: HealthState_make_def Let_def HealthState_init_def split: sum.splits)
qed

lemma str_as_join:
  assumes "set (iter (symptoms hs)) = symptoms hs" and "distinct (iter (symptoms hs))"
  shows "HealthState_str iter hs =
           py_join '', '' (map Symptoms_str (iter (symptoms hs))) @ '' at ''
             @ DiseasePhase_str (disease_phase hs)"
proof -
  have card: "card (symptoms hs) = length (iter (symptoms hs))"
    using distinct_card [OF assms(2)] assms(1) by simp
  show ?thesis
  proof (cases "card (symptoms hs) = 1")
    case True
    with card obtain x where "iter (symptoms hs) = [x]"
      by (cases "iter (symptoms hs)") auto
    with True show ?thesis by (simp add: HealthState_str_def)
  next
    case False
    then show ?thesis by (simp add: HealthState_str_def)
  qed
qed

lemma parse_joined:
  assumes "xs \<noteq> []" and "CHR ''a'' \<notin> set dd" and "py_split '' '' dd = [d, c]"
  shows "HealthState_parse (py_join '', '' (map Symptoms_str xs) @ '' at '' @ dd) =
           (case DiseasePhase_make d c of
              Inl e \<Rightarrow> Inl e
            | Inr dp \<Rightarrow> Inr \<lparr>symptoms = set xs, disease_phase = dp\<rparr>)"
proof -
  have 1: "py_split '' at '' (py_join '', '' (map Symptoms_str xs) @ '' at '' @ dd)
           = [py_join '', '' (map Symptoms_str xs), dd]"
    using join_no_a assms(2) by (rule split_at)
  have 2: "traverse parse_symptom_desc (map Symptoms_str xs) =
             Inr (map (\<lambda>s. (Severity_name (severity s), BaseSymptom_name (base_symptom s))) xs)"
    by (induction xs) (simp_all add: parse_symptom_desc_str)
  show ?thesis
    apply (subst HealthState_parse_def)
    apply (subst 1)
    using make_names [OF assms(1), of d c]
    apply (simp add: split_symptoms [OF assms(1)] 2 assms(3) comp_def)
    done
qed

section \<open>Parsing the string form\<close>

text \<open>
  Claim C1, as the spec states it, fails: the health state that
  \<^verbatim>\<open>make("mild", "fever", "covid", "onset")\<close> builds prints as
  \<^verbatim>\<open>MILD FEVER at COVID (ONSET)\<close>, and parsing that string raises the ValueError of
  a phase name that is not one.
\<close>

theorem parse_of_str_counterexample:
  "HealthState_make (Str ''mild'') (Str ''fever'') ''covid'' ''onset'' = Inr mild_fever
   \<and> HealthState_str in_declared_order mild_fever = ''MILD FEVER at COVID (ONSET)''
   \<and> HealthState_parse (HealthState_str in_declared_order mild_fever) = Inl InvalidContext"
  by code_simp

text \<open>
  Claim C1, amended. Take a health state with at least one symptom and a valid disease
  phase, and any order in which its set of symptoms is iterated. Parsing its string form
  fails, with the ValueError of the phase name: the string form writes the phase in
  parentheses, which \<open>HealthState_parse\<close> takes for a part of the name. Parsing the same
  text with the phase written without the parentheses,
  \<^verbatim>\<open><severity> <symptom>[, <severity> <symptom>...] at <DISEASE> <PHASE>\<close>,
  returns the health state.
\<close>

theorem parse_of_str:
  assumes "set (iter (symptoms hs)) = symptoms hs" and "distinct (iter (symptoms hs))"
    and "symptoms hs \<noteq> {}" and "is_valid (disease_phase hs)"
  shows "HealthState_parse (HealthState_str iter hs) = Inl InvalidContext
         \<and> exc_class InvalidContext = ValueError
         \<and> HealthState_parse
             (py_join '', '' (map Symptoms_str (iter (symptoms hs))) @ '' at ''
                @ Disease_name (disease (disease_phase hs)) @ '' ''
                @ DiseaseContext_name (context (disease_phase hs)))
           = Inr hs"
proof (intro conjI)
  let ?xs = "iter (symptoms hs)"
  let ?D = "Disease_name (disease (disease_phase hs))"
  let ?P = "DiseaseContext_name (context (disease_phase hs))"
  have ne: "?xs \<noteq> []" using assms(1,3) by auto
  have sp: "CHR '' '' \<notin> set ?D" "CHR '' '' \<notin> set ?P" "CHR ''a'' \<notin> set ?D" "CHR ''a'' \<notin> set ?P"
    using Disease_name_chars DiseaseContext_name_chars by simp_all
  show "exc_class InvalidContext = ValueError" by simp
  have "py_split '' '' (?D @ '' '' @ ?P) = [?D, ?P]"
    using sp(1,2) by (rule split_space)
  moreover have "CHR ''a'' \<notin> set (?D @ '' '' @ ?P)" using sp by simp
  ultimately have "HealthState_parse (py_join '', '' (map Symptoms_str ?xs) @ '' at '' @ ?D @ '' '' @ ?P)
      = (case DiseasePhase_make ?D ?P of
              Inl e \<Rightarrow> Inl e
            | Inr dp \<Rightarrow> Inr \<lparr>symptoms = set ?xs, disease_phase = dp\<rparr>)"
    using parse_joined [OF ne, of "?D @ '' '' @ ?P" ?D ?P] by simp
  then show "HealthState_parse (py_join '', '' (map Symptoms_str ?xs) @ '' at '' @ ?D @ '' '' @ ?P)
      = Inr hs"
    using DiseasePhase_make_names [OF assms(4)] assms(1) by simp
  have "CHR '' '' \<notin> set (''('' @ ?P @ '')'')" using sp by simp
  with sp(1) have "py_split '' '' (?D @ '' '' @ (''('' @ ?P @ '')'')) = [?D, ''('' @ ?P @ '')'']"
    by (rule split_space)
  moreover have "CHR ''a'' \<notin> set (?D @ '' '' @ (''('' @ ?P @ '')''))" using sp by simp
  ultimately have "HealthState_parse (py_join '', '' (map Symptoms_str ?xs) @ '' at ''
        @ ?D @ '' '' @ (''('' @ ?P @ '')''))
      = (case DiseasePhase_make ?D (''('' @ ?P @ '')'') of
              Inl e \<Rightarrow> Inl e
            | Inr dp \<Rightarrow> Inr \<lparr>symptoms = set ?xs, disease_phase = dp\<rparr>)"
    using parse_joined [OF ne, of "?D @ '' '' @ (''('' @ ?P @ '')'')" ?D "''('' @ ?P @ '')''"] by simp
  then show "HealthState_parse (HealthState_str iter hs) = Inl InvalidContext"
    using DiseasePhase_make_paren [of "disease_phase hs"]
    by (simp add: str_as_join [of iter hs, OF assms(1,2)] DiseasePhase_str_def)
qed

theorem parse_of_str_witness:
  "set (in_declared_order (symptoms severe_fever_headache)) = symptoms severe_fever_headache
   \<and> distinct (in_declared_order (symptoms severe_fever_headache))
   \<and> symptoms severe_fever_headache \<noteq> {}
   \<and> is_valid (disease_phase severe_fever_headache)
   \<and> HealthState_str in_declared_order severe_fever_headache
       = ''UNDEFINED HEADACHE, SEVERE FEVER at COVID (ONSET)''
   \<and> HealthState_parse ''UNDEFINED HEADACHE, SEVERE FEVER at COVID (ONSET)''
       = Inl InvalidContext
   \<and> HealthState_parse ''UNDEFINED HEADACHE, SEVERE FEVER at COVID ONSET''
       = Inr severe_fever_headache"
proof -
  have a: "set (in_declared_order (symptoms severe_fever_headache))
             = symptoms severe_fever_headache"
    by code_simp
  have b: "distinct (in_declared_order (symptoms severe_fever_headache))"
    by code_simp
  have c: "symptoms severe_fever_headache \<noteq> {}"
    by (simp add: severe_fever_headache_def)
  have d: "is_valid (disease_phase severe_fever_headache)"
    by (simp add: severe_fever_headache_def covid_onset_def is_valid_def)
  have e: "HealthState_str in_declared_order severe_fever_headache
             = ''UNDEFINED HEADACHE, SEVERE FEVER at COVID (ONSET)''"
    by code_simp
  have f: "py_join '', '' (map Symptoms_str (in_declared_order (symptoms severe_fever_headache)))
             @ '' at '' @ Disease_name (disease (disease_phase severe_fever_headache)) @ '' ''
             @ DiseaseContext_name (context (disease_phase severe_fever_headache))
           = ''UNDEFINED HEADACHE, SEVERE FEVER at COVID ONSET''"
    by code_simp
  note t = parse_of_str [of in_declared_order severe_fever_headache, OF a b c d]
  have g: "HealthState_parse ''UNDEFINED HEADACHE, SEVERE FEVER at COVID (ONSET)''
             = Inl InvalidContext"
    using conjunct1 [OF t] unfolding e .
  have h: "HealthState_parse ''UNDEFINED HEADACHE, SEVERE FEVER at COVID ONSET''
             = Inr severe_fever_headache"
    using conjunct2 [OF conjunct2 [OF t]] unfolding f .
  from a b c d e g h show ?thesis by (intro conjI)
qed

end
